theory Spec2Isabelle
  imports Complex_Main "HOL-Library.Log_Nat"
begin

section \<open>JavaScript values\<close>

text \<open>
  The plugin runtime of bpanel (\<^verbatim>\<open>webapp/plugins/plugins.js\<close>) passes untyped
  JavaScript values between the host and the plugins. A number is an IEEE double:
  \<open>Dbl m e\<close> is the finite value \<open>m * 2 ^ e\<close> (the sign of zero is not kept). A function value that the runtime only
  stores and never calls here (a React component, a plugin decorator) is \<open>Fun\<close> with a
  label. An object literal is an association list in enumeration order.
\<close>

datatype jsnum = Dbl int int | NaN | PosInf | NegInf

datatype jsval =
    Undefined
  | Null
  | Bool bool
  | Num jsnum
  | Str string
  | Fun string
  | Arr "jsval list"
  | Obj "(string \<times> jsval) list"

text \<open>\<^verbatim>\<open>!v\<close> is \<open>\<not> truthy v\<close>.\<close>

fun truthy :: "jsval \<Rightarrow> bool" where
  "truthy Undefined = False"
| "truthy Null = False"
| "truthy (Bool b) = b"
| "truthy (Num (Dbl m e)) = (m \<noteq> 0)"
| "truthy (Num NaN) = False"
| "truthy (Num PosInf) = True"
| "truthy (Num NegInf) = True"
| "truthy (Str s) = (s \<noteq> [])"
| "truthy (Fun f) = True"
| "truthy (Arr xs) = True"
| "truthy (Obj kvs) = True"

fun typeof :: "jsval \<Rightarrow> string" where
  "typeof Undefined = ''undefined''"
| "typeof Null = ''object''"
| "typeof (Bool b) = ''boolean''"
| "typeof (Num n) = ''number''"
| "typeof (Str s) = ''string''"
| "typeof (Fun f) = ''function''"
| "typeof (Arr xs) = ''object''"
| "typeof (Obj kvs) = ''object''"

text \<open>
  Reading a property that an object owns; an absent one reads as \<^verbatim>\<open>undefined\<close>.
  What a plain object inherits is \<open>inherited\<close> below: the runtime meets it only in the
  lookups of its registries.
\<close>

fun js_prop :: "jsval \<Rightarrow> string \<Rightarrow> jsval" where
  "js_prop (Obj kvs) k = (case map_of kvs k of None \<Rightarrow> Undefined | Some v \<Rightarrow> v)"
| "js_prop v k = Undefined"

text \<open>
  The registries of the runtime and the constants are plain objects, so a lookup
  \<^verbatim>\<open>obj[key]\<close> of a key that the object does not own goes on to
  \<^verbatim>\<open>Object.prototype\<close>. These are its members; each of them is truthy, and none is an
  array. The maps of the model hold the own properties only.
\<close>

definition proto_functions :: "string list" where
  "proto_functions =
     [''constructor'', ''hasOwnProperty'', ''isPrototypeOf'', ''propertyIsEnumerable'',
      ''toLocaleString'', ''toString'', ''valueOf'', ''__defineGetter__'',
      ''__defineSetter__'', ''__lookupGetter__'', ''__lookupSetter__'']"

definition proto_member :: "string \<Rightarrow> bool" where
  "proto_member key \<longleftrightarrow> key \<in> set (''__proto__'' # proto_functions)"

text \<open>
  What a lookup of a key that the object does not own yields: a function, or for
  \<^verbatim>\<open>__proto__\<close> the prototype itself, the object of those functions.
\<close>

definition inherited :: "string \<Rightarrow> jsval" where
  "inherited key =
     (if key = ''__proto__''
      then Obj (map (\<lambda>k. (k, Fun (''Object.prototype.'' @ k))) proto_functions)
      else if key \<in> set proto_functions then Fun (''Object.prototype.'' @ key)
      else Undefined)"

text \<open>
  What is thrown. \<open>TypeError\<close> is what the engine raises on a property read of
  \<^verbatim>\<open>undefined\<close> or \<^verbatim>\<open>null\<close> and on a call of what is not a function,
  \<open>ModuleNotFound\<close> what \<^verbatim>\<open>require\<close> raises. \<open>Thrown v\<close> is \<^verbatim>\<open>throw v\<close> in the
  code of a plugin, where \<open>v\<close> is any value: an \<^verbatim>\<open>Error\<close> object is an object with
  the property \<^verbatim>\<open>stack\<close>.
\<close>

datatype js_error = TypeError string | ModuleNotFound string | Thrown jsval

text \<open>
  The expression \<^verbatim>\<open>err.stack\<close> on a caught value. On \<^verbatim>\<open>null\<close> and
  \<^verbatim>\<open>undefined\<close> the property read itself throws.
\<close>

fun stack :: "js_error \<Rightarrow> js_error + jsval" where
  "stack (TypeError m) = Inr (Str (''TypeError: '' @ m))"
| "stack (ModuleNotFound m) = Inr (Str (''Error: Cannot find module '' @ m))"
| "stack (Thrown Undefined) =
     Inl (TypeError ''Cannot read property stack of undefined'')"
| "stack (Thrown Null) = Inl (TypeError ''Cannot read property stack of null'')"
| "stack (Thrown v) = Inr (js_prop v ''stack'')"

text \<open>A template literal prints an undefined name as the text \<^verbatim>\<open>undefined\<close>.\<close>

fun tpl :: "string option \<Rightarrow> string" where
  "tpl None = ''undefined''"
| "tpl (Some s) = s"

text \<open>One call of \<^verbatim>\<open>console.error\<close> is the list of its arguments.\<close>

type_synonym log = "jsval list list"

section \<open>Plugins and the module state\<close>

text \<open>
  A plugin function either returns a value or throws: \<open>Inl\<close> is the exception.
  A middleware has the redux shape \<^verbatim>\<open>store => next => action => ...\<close>; calling a
  handler is a computation over the state \<open>'w\<close> of everything outside the runtime.
\<close>

type_synonym mapper = "jsval \<Rightarrow> jsval \<Rightarrow> js_error + jsval"
type_synonym reducer = "jsval \<Rightarrow> jsval \<Rightarrow> js_error + jsval"
type_synonym transform = "jsval \<Rightarrow> js_error + jsval"
type_synonym propfn = "jsval \<Rightarrow> jsval \<Rightarrow> jsval list \<Rightarrow> js_error + jsval"
type_synonym 'w comp = "'w \<Rightarrow> (js_error + jsval) \<times> 'w"
type_synonym 'w handler = "jsval \<Rightarrow> 'w comp"
type_synonym 'w middleware = "jsval \<Rightarrow> 'w handler \<Rightarrow> 'w handler"

text \<open>
  \<^verbatim>\<open>plugin[method]._pluginName = name\<close> (lines 86-91) writes the owner's name and
  version on every top-level export of the plugin. A registered export is therefore the
  function together with the two tags; the functions inside \<^verbatim>\<open>getRouteProps\<close> and
  \<^verbatim>\<open>decoratePlugin\<close> are not top-level exports and carry no tag.
\<close>

record 'f tagged =
  fn :: 'f
  tag_pluginName :: "string option"
  tag_pluginVersion :: "string option"

record pmeta =
  md_name :: "string option"
  md_pluginVersion :: "string option"

text \<open>The exports of a plugin module that \<^verbatim>\<open>loadPlugins\<close> reads; \<open>None\<close> is an absent export.\<close>

record 'w plugin =
  p_metadata :: "pmeta option"
  p_middleware :: "'w middleware option"
  p_mapPanelState :: "mapper option"
  p_mapAppState :: "mapper option"
  p_mapPanelDispatch :: "mapper option"
  p_mapAppDispatch :: "mapper option"
  p_getRouteProps :: "(string \<times> propfn) list option"
  p_getPanelProps :: "propfn option"
  p_reduceChain :: "reducer option"
  p_reduceNode :: "reducer option"
  p_addSocketsConstants :: "transform option"
  p_decoratePlugin :: "(string \<times> jsval) list option"

record connector =
  state :: "mapper tagged list"
  dispatch :: "mapper tagged list"

text \<open>
  The module-level variables of lines 12-34. A variable declared without initialiser
  (\<^verbatim>\<open>let plugins;\<close>) is \<open>None\<close> until \<^verbatim>\<open>loadPlugins\<close> assigns it. The arrays
  \<^verbatim>\<open>panelPropsDecorators\<close>, \<^verbatim>\<open>chainReducers\<close> and \<^verbatim>\<open>nodeReducers\<close> are the
  very arrays stored under \<^verbatim>\<open>propsDecorators.getPanelProps\<close>,
  \<^verbatim>\<open>reducersDecorators.chainReducer\<close> and \<^verbatim>\<open>reducersDecorators.nodeReducer\<close>, so
  they are read through those entries. An object literal used as a dictionary is the map
  of its own properties. The assignment \<^verbatim>\<open>metadata[pluginName] = plugin.metadata\<close>
  with the name \<^verbatim>\<open>__proto__\<close> creates no property: it makes the metadata of that
  plugin the prototype of \<^verbatim>\<open>metadata\<close>, kept in \<open>metadata_proto\<close> (\<open>None\<close>
  while the prototype is \<^verbatim>\<open>Object.prototype\<close>).
\<close>

record 'w runtime =
  plugins :: "'w plugin list option"
  connectors :: "(string \<rightharpoonup> connector) option"
  metadata :: "string \<rightharpoonup> pmeta"
  metadata_proto :: "pmeta option"
  middlewares :: "'w middleware tagged list option"
  decorated :: "string \<rightharpoonup> jsval"
  pluginDecorators :: "string \<rightharpoonup> jsval list"
  propsDecorators :: "string \<rightharpoonup> propfn tagged list"
  routePropsDecorators :: "(string \<rightharpoonup> propfn list) option"
  reducersDecorators :: "string \<rightharpoonup> reducer tagged list"
  extendConstants :: "string \<rightharpoonup> transform tagged list"

text \<open>The state right after the module has been evaluated.\<close>

definition module_init :: "'w runtime" where
  "module_init =
     \<lparr>plugins = None, connectors = None, metadata = Map.empty, metadata_proto = None,
      middlewares = None,
      decorated = Map.empty, pluginDecorators = Map.empty, propsDecorators = Map.empty,
      routePropsDecorators = None, reducersDecorators = Map.empty,
      extendConstants = Map.empty\<rparr>"

section \<open>connect: deriving state and dispatch props\<close>

text \<open>The arguments of the \<^verbatim>\<open>console.error\<close> calls of lines 245-248 and 252-255.\<close>

definition thrown_message :: "string \<Rightarrow> mapper tagged \<Rightarrow> jsval \<Rightarrow> jsval list" where
  "thrown_message name mapper stack_value =
     [Str (''Plugin error: Problem with `map'' @ name @ ''State` for ''
             @ tpl (tag_pluginName mapper) @ '': ''),
      stack_value]"

definition invalid_message :: "string \<Rightarrow> mapper tagged \<Rightarrow> jsval list" where
  "invalid_message name mapper =
     [Str ''Plugin error '',
      Str (tpl (tag_pluginName mapper) @ '': Invalid return value of `map'' @ name
             @ ''State` (object expected).'')]"

text \<open>
  Lines 239-249: \<^verbatim>\<open>let ret = acc\<close> and the \<^verbatim>\<open>try\<close> statement. The result is the
  value of \<^verbatim>\<open>ret\<close> afterwards, or what the statement throws: the handler reads
  \<^verbatim>\<open>err.stack\<close> while it builds the arguments of \<^verbatim>\<open>console.error\<close>, outside
  of any \<^verbatim>\<open>try\<close>, so that where this read throws nothing is logged.
\<close>

definition try_mapper ::
  "string \<Rightarrow> jsval \<Rightarrow> jsval \<Rightarrow> mapper tagged \<Rightarrow> (js_error + jsval) \<times> log" where
  "try_mapper name x acc mapper =
     (case fn mapper x acc of
        Inr r \<Rightarrow> (Inr r, [])
      | Inl err \<Rightarrow>
          (case stack err of
             Inl e \<Rightarrow> (Inl e, [])
           | Inr stack_value \<Rightarrow> (Inr acc, [thrown_message name mapper stack_value])))"

text \<open>
  The callback of both \<^verbatim>\<open>reduce\<close> calls in \<^verbatim>\<open>connect\<close> (lines 238-258 and
  261-282; the two differ only in the name of the first argument, \<^verbatim>\<open>state\<close> or
  \<^verbatim>\<open>dispatch\<close>, here \<open>x\<close>). It yields the next accumulator, or throws, and what it
  logged.
\<close>

definition mapper_step ::
  "string \<Rightarrow> jsval \<Rightarrow> jsval \<Rightarrow> mapper tagged \<Rightarrow> (js_error + jsval) \<times> log" where
  "mapper_step name x acc mapper =
     (case try_mapper name x acc mapper of
        (Inl e, lg) \<Rightarrow> (Inl e, lg)
      | (Inr ret, lg) \<Rightarrow>
          (if \<not> truthy ret \<or> typeof ret \<noteq> ''object''
           then (Inr Undefined, lg @ [invalid_message name mapper])
           else (Inr ret, lg)))"

text \<open>\<^verbatim>\<open>mappers.reduce(callback, acc)\<close>; a callback that throws ends the fold.\<close>

fun mapper_reduce ::
  "string \<Rightarrow> jsval \<Rightarrow> mapper tagged list \<Rightarrow> jsval \<Rightarrow> (js_error + jsval) \<times> log" where
  "mapper_reduce name x [] acc = (Inr acc, [])"
| "mapper_reduce name x (m # ms) acc =
     (case mapper_step name x acc m of
        (Inl e, l) \<Rightarrow> (Inl e, l)
      | (Inr a, l) \<Rightarrow>
          (case mapper_reduce name x ms a of (r, l') \<Rightarrow> (r, l @ l')))"

text \<open>
  The first function handed to \<^verbatim>\<open>reduxConnect\<close> (lines 237-259). The member
  \<^verbatim>\<open>connectors[name].state.reduce\<close> is looked up before the argument
  \<^verbatim>\<open>stateFn(state)\<close> is evaluated; neither is inside a \<^verbatim>\<open>try\<close>. For a name
  that \<^verbatim>\<open>connectors\<close> does not own the lookup throws a \<^verbatim>\<open>TypeError\<close>, at
  \<^verbatim>\<open>.state\<close> on \<^verbatim>\<open>undefined\<close> or, for a member of \<^verbatim>\<open>Object.prototype\<close>,
  at \<^verbatim>\<open>.reduce\<close> on its undefined \<^verbatim>\<open>state\<close>.
\<close>

definition connect_state ::
  "'w runtime \<Rightarrow> (jsval \<Rightarrow> js_error + jsval) \<Rightarrow> string \<Rightarrow> jsval \<Rightarrow> (js_error + jsval) \<times> log" where
  "connect_state rt stateFn name st =
     (case connectors rt of
        None \<Rightarrow> (Inl (TypeError ''connectors is undefined''), [])
      | Some cs \<Rightarrow>
          (case cs name of
             None \<Rightarrow> (Inl (TypeError ''connectors[name].state is undefined''), [])
           | Some c \<Rightarrow>
               (case stateFn st of
                  Inl e \<Rightarrow> (Inl e, [])
                | Inr init \<Rightarrow> mapper_reduce name st (state c) init)))"

text \<open>The second function handed to \<^verbatim>\<open>reduxConnect\<close> (lines 260-283).\<close>

definition connect_dispatch ::
  "'w runtime \<Rightarrow> (jsval \<Rightarrow> js_error + jsval) \<Rightarrow> string \<Rightarrow> jsval \<Rightarrow> (js_error + jsval) \<times> log" where
  "connect_dispatch rt dispatchFn name dsp =
     (case connectors rt of
        None \<Rightarrow> (Inl (TypeError ''connectors is undefined''), [])
      | Some cs \<Rightarrow>
          (case cs name of
             None \<Rightarrow> (Inl (TypeError ''connectors[name].dispatch is undefined''), [])
           | Some c \<Rightarrow>
               (case dispatchFn dsp of
                  Inl e \<Rightarrow> (Inl e, [])
                | Inr init \<Rightarrow> mapper_reduce name dsp (dispatch c) init)))"

section \<open>loadPlugins\<close>

text \<open>Lines 41-66: the registries that every load creates afresh.\<close>

definition reset_registries :: "'w runtime \<Rightarrow> 'w runtime" where
  "reset_registries rt =
     rt\<lparr>connectors :=
          Some [''App'' \<mapsto> \<lparr>state = [], dispatch = []\<rparr>,
                ''Panel'' \<mapsto> \<lparr>state = [], dispatch = []\<rparr>],
        extendConstants := [''sockets'' \<mapsto> []],
        propsDecorators := [''getPanelProps'' \<mapsto> []],
        routePropsDecorators := Some Map.empty,
        reducersDecorators := [''chainReducer'' \<mapsto> [], ''nodeReducer'' \<mapsto> []],
        middlewares := Some []\<rparr>"

text \<open>The export \<open>f\<close> after the tagging loop of lines 86-91.\<close>

definition tagged_export :: "string option \<Rightarrow> string option \<Rightarrow> 'f \<Rightarrow> 'f tagged" where
  "tagged_export name pluginVersion f =
     \<lparr>fn = f, tag_pluginName = name, tag_pluginVersion = pluginVersion\<rparr>"

text \<open>
  \<^verbatim>\<open>registry[k].push(v)\<close> on an entry that the reset has created. Inside
  \<^verbatim>\<open>loadPlugins\<close> the entry is always there; without it the registry is left alone.
\<close>

definition push_at :: "('k \<rightharpoonup> 'a list) \<Rightarrow> 'k \<Rightarrow> 'a \<Rightarrow> ('k \<rightharpoonup> 'a list)" where
  "push_at m k v = (case m k of None \<Rightarrow> m | Some xs \<Rightarrow> m(k \<mapsto> xs @ [v]))"

text \<open>\<^verbatim>\<open>if (!registry[k]) registry[k] = []; registry[k].push(v)\<close>.\<close>

definition push_init :: "('k \<rightharpoonup> 'a list) \<Rightarrow> 'k \<Rightarrow> 'a \<Rightarrow> ('k \<rightharpoonup> 'a list)" where
  "push_init m k v = m(k \<mapsto> (case m k of None \<Rightarrow> [] | Some xs \<Rightarrow> xs) @ [v])"

definition push_state :: "(string \<rightharpoonup> connector) \<Rightarrow> string \<Rightarrow> mapper tagged \<Rightarrow> (string \<rightharpoonup> connector)" where
  "push_state cs mount f =
     (case cs mount of None \<Rightarrow> cs | Some c \<Rightarrow> cs(mount \<mapsto> c\<lparr>state := state c @ [f]\<rparr>))"

definition push_dispatch :: "(string \<rightharpoonup> connector) \<Rightarrow> string \<Rightarrow> mapper tagged \<Rightarrow> (string \<rightharpoonup> connector)" where
  "push_dispatch cs mount f =
     (case cs mount of None \<Rightarrow> cs | Some c \<Rightarrow> cs(mount \<mapsto> c\<lparr>dispatch := dispatch c @ [f]\<rparr>))"

text \<open>
  \<^verbatim>\<open>key[0] === '_'\<close>: the key is internal. The tag fields \<^verbatim>\<open>_pluginName\<close> and
  \<^verbatim>\<open>_pluginVersion\<close>, which the loop of lines 86-91 also writes on the objects
  \<^verbatim>\<open>getRouteProps\<close> and \<^verbatim>\<open>decoratePlugin\<close>, are such keys; the association lists
  of the model leave them out.
\<close>

definition internal_key :: "string \<Rightarrow> bool" where
  "internal_key key = (case key of [] \<Rightarrow> False | ch # rest \<Rightarrow> ch = CHR ''_'')"

text \<open>The argument of the \<^verbatim>\<open>console.error\<close> of lines 81-83.\<close>

definition metadata_message :: "string \<Rightarrow> jsval list" where
  "metadata_message pluginName =
     [Str (''There was a problem loading the metadata for '' @ pluginName)]"

text \<open>
  Lines 75-84: the metadata of the plugin, or a logged error. Line 78 stores the metadata
  under the plugin's name, or as the prototype for the name \<^verbatim>\<open>__proto__\<close>.
\<close>

definition load_metadata ::
  "string \<Rightarrow> 'w plugin \<Rightarrow> 'w runtime \<Rightarrow> string option \<times> string option \<times> 'w runtime \<times> log" where
  "load_metadata pluginName plugin rt =
     (case p_metadata plugin of
        None \<Rightarrow>
          (None, None, rt, [metadata_message pluginName])
      | Some md \<Rightarrow>
          (md_name md, md_pluginVersion md,
           (if pluginName = ''__proto__'' then rt\<lparr>metadata_proto := Some md\<rparr>
            else rt\<lparr>metadata := (metadata rt)(pluginName \<mapsto> md)\<rparr>),
           []))"

text \<open>
  The loop of lines 117-124 over the keys of \<^verbatim>\<open>getRouteProps\<close>. For a key that the
  registry does not own but \<^verbatim>\<open>Object.prototype\<close> has, the test of line 121 finds a
  truthy value, no array is created, and \<^verbatim>\<open>.push\<close> of line 123 is not a function:
  the loop throws, with the earlier keys registered.
\<close>

fun route_loop ::
  "(string \<rightharpoonup> propfn list) \<Rightarrow> (string \<times> propfn) list
     \<Rightarrow> js_error option \<times> (string \<rightharpoonup> propfn list)" where
  "route_loop rpd [] = (None, rpd)"
| "route_loop rpd ((key, f) # rest) =
     (if internal_key key then route_loop rpd rest
      else if rpd key = None \<and> proto_member key
      then (Some (TypeError ''routePropsDecorators[key].push is not a function''), rpd)
      else route_loop (push_init rpd key f) rest)"

text \<open>
  Lines 93-147: every capability that the plugin exports is appended to its registry, one
  \<^verbatim>\<open>if\<close> statement after the other.
\<close>

text \<open>Lines 93-95.\<close>

definition register_middleware ::
  "string option \<Rightarrow> string option \<Rightarrow> 'w plugin \<Rightarrow> 'w runtime \<Rightarrow> 'w runtime" where
  "register_middleware name pluginVersion plugin rt =
     (case p_middleware plugin of
        None \<Rightarrow> rt
      | Some f \<Rightarrow>
          rt\<lparr>middlewares :=
            map_option (\<lambda>ms. ms @ [tagged_export name pluginVersion f]) (middlewares rt)\<rparr>)"

text \<open>Lines 98-100.\<close>

definition register_mapPanelState ::
  "string option \<Rightarrow> string option \<Rightarrow> 'w plugin \<Rightarrow> 'w runtime \<Rightarrow> 'w runtime" where
  "register_mapPanelState name pluginVersion plugin rt =
     (case p_mapPanelState plugin of
        None \<Rightarrow> rt
      | Some f \<Rightarrow>
          rt\<lparr>connectors :=
            map_option (\<lambda>cs. push_state cs ''Panel'' (tagged_export name pluginVersion f))
              (connectors rt)\<rparr>)"

text \<open>Lines 102-104.\<close>

definition register_mapAppState ::
  "string option \<Rightarrow> string option \<Rightarrow> 'w plugin \<Rightarrow> 'w runtime \<Rightarrow> 'w runtime" where
  "register_mapAppState name pluginVersion plugin rt =
     (case p_mapAppState plugin of
        None \<Rightarrow> rt
      | Some f \<Rightarrow>
          rt\<lparr>connectors :=
            map_option (\<lambda>cs. push_state cs ''App'' (tagged_export name pluginVersion f))
              (connectors rt)\<rparr>)"

text \<open>Lines 106-108.\<close>

definition register_mapPanelDispatch ::
  "string option \<Rightarrow> string option \<Rightarrow> 'w plugin \<Rightarrow> 'w runtime \<Rightarrow> 'w runtime" where
  "register_mapPanelDispatch name pluginVersion plugin rt =
     (case p_mapPanelDispatch plugin of
        None \<Rightarrow> rt
      | Some f \<Rightarrow>
          rt\<lparr>connectors :=
            map_option (\<lambda>cs. push_dispatch cs ''Panel'' (tagged_export name pluginVersion f))
              (connectors rt)\<rparr>)"

text \<open>Lines 110-112.\<close>

definition register_mapAppDispatch ::
  "string option \<Rightarrow> string option \<Rightarrow> 'w plugin \<Rightarrow> 'w runtime \<Rightarrow> 'w runtime" where
  "register_mapAppDispatch name pluginVersion plugin rt =
     (case p_mapAppDispatch plugin of
        None \<Rightarrow> rt
      | Some f \<Rightarrow>
          rt\<lparr>connectors :=
            map_option (\<lambda>cs. push_dispatch cs ''App'' (tagged_export name pluginVersion f))
              (connectors rt)\<rparr>)"

text \<open>
  Lines 116-125. Inside \<^verbatim>\<open>loadPlugins\<close> the registry has been created; before any
  load it is \<^verbatim>\<open>undefined\<close>, and the test of line 121 throws at the first key that
  is not internal.
\<close>

definition register_getRouteProps ::
  "string option \<Rightarrow> string option \<Rightarrow> 'w plugin \<Rightarrow> 'w runtime \<Rightarrow> js_error option \<times> 'w runtime" where
  "register_getRouteProps name pluginVersion plugin rt =
     (case p_getRouteProps plugin of
        None \<Rightarrow> (None, rt)
      | Some kfs \<Rightarrow>
          (case routePropsDecorators rt of
             None \<Rightarrow>
               (if list_ex (\<lambda>kf. \<not> internal_key (fst kf)) kfs
                then Some (TypeError ''routePropsDecorators is undefined'') else None,
                rt)
           | Some rpd \<Rightarrow>
               (fst (route_loop rpd kfs),
                rt\<lparr>routePropsDecorators := Some (snd (route_loop rpd kfs))\<rparr>)))"

text \<open>Lines 131-133.\<close>

definition register_getPanelProps ::
  "string option \<Rightarrow> string option \<Rightarrow> 'w plugin \<Rightarrow> 'w runtime \<Rightarrow> 'w runtime" where
  "register_getPanelProps name pluginVersion plugin rt =
     (case p_getPanelProps plugin of
        None \<Rightarrow> rt
      | Some f \<Rightarrow>
          rt\<lparr>propsDecorators :=
            push_at (propsDecorators rt) ''getPanelProps'' (tagged_export name pluginVersion f)\<rparr>)"

text \<open>Lines 136-138.\<close>

definition register_reduceChain ::
  "string option \<Rightarrow> string option \<Rightarrow> 'w plugin \<Rightarrow> 'w runtime \<Rightarrow> 'w runtime" where
  "register_reduceChain name pluginVersion plugin rt =
     (case p_reduceChain plugin of
        None \<Rightarrow> rt
      | Some f \<Rightarrow>
          rt\<lparr>reducersDecorators :=
            push_at (reducersDecorators rt) ''chainReducer'' (tagged_export name pluginVersion f)\<rparr>)"

text \<open>Lines 140-142.\<close>

definition register_reduceNode ::
  "string option \<Rightarrow> string option \<Rightarrow> 'w plugin \<Rightarrow> 'w runtime \<Rightarrow> 'w runtime" where
  "register_reduceNode name pluginVersion plugin rt =
     (case p_reduceNode plugin of
        None \<Rightarrow> rt
      | Some f \<Rightarrow>
          rt\<lparr>reducersDecorators :=
            push_at (reducersDecorators rt) ''nodeReducer'' (tagged_export name pluginVersion f)\<rparr>)"

text \<open>Lines 145-147.\<close>

definition register_addSocketsConstants ::
  "string option \<Rightarrow> string option \<Rightarrow> 'w plugin \<Rightarrow> 'w runtime \<Rightarrow> 'w runtime" where
  "register_addSocketsConstants name pluginVersion plugin rt =
     (case p_addSocketsConstants plugin of
        None \<Rightarrow> rt
      | Some f \<Rightarrow>
          rt\<lparr>extendConstants :=
            push_at (extendConstants rt) ''sockets'' (tagged_export name pluginVersion f)\<rparr>)"

text \<open>The statements after the route loop, lines 131-147.\<close>

definition register_rest ::
  "string option \<Rightarrow> string option \<Rightarrow> 'w plugin \<Rightarrow> 'w runtime \<Rightarrow> 'w runtime" where
  "register_rest name pluginVersion plugin rt6 =
     (let rt7 = register_getPanelProps name pluginVersion plugin rt6;
          rt8 = register_reduceChain name pluginVersion plugin rt7;
          rt9 = register_reduceNode name pluginVersion plugin rt8
      in register_addSocketsConstants name pluginVersion plugin rt9)"

text \<open>Lines 93-147 as a whole; an exception of the route loop ends them.\<close>

definition register_exports ::
  "string option \<Rightarrow> string option \<Rightarrow> 'w plugin \<Rightarrow> 'w runtime \<Rightarrow> js_error option \<times> 'w runtime" where
  "register_exports name pluginVersion plugin rt0 =
     (let rt1 = register_middleware name pluginVersion plugin rt0;
          rt2 = register_mapPanelState name pluginVersion plugin rt1;
          rt3 = register_mapAppState name pluginVersion plugin rt2;
          rt4 = register_mapPanelDispatch name pluginVersion plugin rt3;
          rt5 = register_mapAppDispatch name pluginVersion plugin rt4;
          routes = register_getRouteProps name pluginVersion plugin rt5
      in (case fst routes of
            Some err \<Rightarrow> (Some err, snd routes)
          | None \<Rightarrow> (None, register_rest name pluginVersion plugin (snd routes))))"

text \<open>The three arguments of the \<^verbatim>\<open>console.error\<close> of lines 157-161.\<close>

definition dependency_message :: "string \<Rightarrow> string option \<Rightarrow> jsval list" where
  "dependency_message key name =
     [Str (''Plugin dependency \"'' @ key @ ''\" does not exist for '' @ tpl name @ ''.''),
      Str (''Please make sure plugin \"'' @ key @ ''\" has been added to configs''),
      Str (''and is loaded before child plugin \"'' @ tpl name @ ''\"'')]"

text \<open>
  Whether a property of a metadata object is truthy. After the tagging loop the object
  has \<^verbatim>\<open>name\<close>, \<^verbatim>\<open>pluginVersion\<close> and the two tags with the same values, and
  what it inherits from \<^verbatim>\<open>Object.prototype\<close>.
\<close>

definition text_truthy :: "string option \<Rightarrow> bool" where
  "text_truthy t = (case t of None \<Rightarrow> False | Some s \<Rightarrow> s \<noteq> [])"

definition md_truthy :: "pmeta \<Rightarrow> string \<Rightarrow> bool" where
  "md_truthy md key =
     (if key = ''name'' \<or> key = ''_pluginName'' then text_truthy (md_name md)
      else if key = ''pluginVersion'' \<or> key = ''_pluginVersion''
      then text_truthy (md_pluginVersion md)
      else proto_member key)"

text \<open>
  \<^verbatim>\<open>metadata[key]\<close> is truthy: the test of line 155, negated. An own entry is a
  metadata object; otherwise the lookup goes to the prototype.
\<close>

definition known_plugin :: "'w runtime \<Rightarrow> string \<Rightarrow> bool" where
  "known_plugin rt key =
     (case metadata rt key of
        Some md \<Rightarrow> True
      | None \<Rightarrow>
          (case metadata_proto rt of
             None \<Rightarrow> proto_member key
           | Some md \<Rightarrow> md_truthy md key))"

text \<open>
  The loop of lines 152-167 over the keys of \<^verbatim>\<open>decoratePlugin\<close>. \<open>Inr False\<close> is the
  \<^verbatim>\<open>return\<close> of line 162, \<open>Inr True\<close> the end of the loop. For a key that passes the
  test of line 155 and that \<^verbatim>\<open>pluginDecorators\<close> does not own but
  \<^verbatim>\<open>Object.prototype\<close> has, line 165 creates no array and \<^verbatim>\<open>.push\<close> of line 166
  is not a function: the loop throws.
\<close>

fun decorate_loop ::
  "string option \<Rightarrow> (string \<Rightarrow> bool) \<Rightarrow> (string \<times> jsval) list \<Rightarrow> (string \<rightharpoonup> jsval list)
     \<Rightarrow> (js_error + bool) \<times> (string \<rightharpoonup> jsval list) \<times> log" where
  "decorate_loop name known [] pd = (Inr True, pd, [])"
| "decorate_loop name known ((key, d) # rest) pd =
     (if internal_key key then decorate_loop name known rest pd
      else if \<not> known key then (Inr False, pd, [dependency_message key name])
      else if pd key = None \<and> proto_member key
      then (Inl (TypeError ''pluginDecorators[key].push is not a function''), pd, [])
      else decorate_loop name known rest (push_init pd key d))"

text \<open>
  The callback of the \<^verbatim>\<open>map\<close> of lines 71-171: \<open>Inr None\<close> is \<^verbatim>\<open>return;\<close>,
  \<open>Inl\<close> an exception, which nothing in \<^verbatim>\<open>loadPlugins\<close> catches.
\<close>

definition load_plugin ::
  "string \<Rightarrow> 'w plugin \<Rightarrow> 'w runtime \<Rightarrow> (js_error + 'w plugin option) \<times> 'w runtime \<times> log" where
  "load_plugin pluginName plugin rt =
     (let (name, pluginVersion, rt1, lg1) = load_metadata pluginName plugin rt;
          (thrown, rt2) = register_exports name pluginVersion plugin rt1
      in (case thrown of
            Some err \<Rightarrow> (Inl err, rt2, lg1)
          | None \<Rightarrow>
              (case p_decoratePlugin plugin of
                 None \<Rightarrow> (Inr (Some plugin), rt2, lg1)
               | Some kds \<Rightarrow>
                   (let (r, pd, lg2) =
                          decorate_loop name (known_plugin rt2) kds (pluginDecorators rt2)
                    in (case r of
                          Inl err \<Rightarrow> (Inl err, rt2\<lparr>pluginDecorators := pd\<rparr>, lg1 @ lg2)
                        | Inr ok \<Rightarrow>
                            (Inr (if ok then Some plugin else None),
                             rt2\<lparr>pluginDecorators := pd\<rparr>, lg1 @ lg2))))))"

text \<open>
  \<^verbatim>\<open>config.localPlugins.map(...)\<close>. \<open>req\<close> is \<^verbatim>\<open>require\<close> on the directory of
  local plugins: \<open>None\<close> for a name with no module, which throws out of the whole load.
\<close>

fun map_plugins ::
  "(string \<Rightarrow> 'w plugin option) \<Rightarrow> string list \<Rightarrow> 'w runtime
     \<Rightarrow> (js_error + 'w plugin option list) \<times> 'w runtime \<times> log" where
  "map_plugins req [] rt = (Inr [], rt, [])"
| "map_plugins req (pluginName # rest) rt =
     (case req pluginName of
        None \<Rightarrow> (Inl (ModuleNotFound pluginName), rt, [])
      | Some plugin \<Rightarrow>
          (case load_plugin pluginName plugin rt of
             (Inl e, rt1, lg1) \<Rightarrow> (Inl e, rt1, lg1)
           | (Inr r, rt1, lg1) \<Rightarrow>
               (case map_plugins req rest rt1 of
                  (Inl e, rt2, lg2) \<Rightarrow> (Inl e, rt2, lg1 @ lg2)
                | (Inr rs', rt2, lg2) \<Rightarrow> (Inr (r # rs'), rt2, lg1 @ lg2))))"

text \<open>
  \<^verbatim>\<open>loadPlugins\<close>, with the list \<^verbatim>\<open>config.localPlugins\<close> and \<^verbatim>\<open>require\<close> as
  parameters. \<^verbatim>\<open>plugins\<close> is assigned only when the \<^verbatim>\<open>map\<close> has returned.
\<close>

definition loadPlugins ::
  "string list \<Rightarrow> (string \<Rightarrow> 'w plugin option) \<Rightarrow> 'w runtime \<Rightarrow> (js_error + unit) \<times> 'w runtime \<times> log" where
  "loadPlugins localPlugins req rt =
     (case map_plugins req localPlugins (reset_registries rt) of
        (Inl e, rt1, lg) \<Rightarrow> (Inl e, rt1, lg)
      | (Inr rs, rt1, lg) \<Rightarrow> (Inr (), rt1\<lparr>plugins := Some (List.map_filter (\<lambda>r. r) rs)\<rparr>, lg))"

section \<open>Constants\<close>

text \<open>
  \<^verbatim>\<open>store/constants/sockets.js\<close>. \<^verbatim>\<open>SET_CHAIN_TIP\<close> is imported from the chain
  namespace, whose module is not part of the sources at hand: the namespace is a parameter.
\<close>

definition listeners :: "jsval \<Rightarrow> jsval" where
  "listeners chain =
     Arr [Obj [(''event'', Str ''new block''), (''actionType'', js_prop chain ''SET_CHAIN_TIP'')]]"

definition sockets :: "jsval \<Rightarrow> jsval" where
  "sockets chain =
     Obj [(''CONNECT_SOCKET'', Str ''CONNECT_SOCKET''),
          (''DISCONNECT_SOCKET'', Str ''DISCONNECT_SOCKET''),
          (''listeners'', listeners chain)]"

text \<open>The four namespaces that \<^verbatim>\<open>store/constants/index.js\<close> imports from absent modules.\<close>

record namespaces =
  ns_chain :: jsval
  ns_node :: jsval
  ns_plugins :: jsval
  ns_theme :: jsval

text \<open>The default export of \<^verbatim>\<open>store/constants/index.js\<close>.\<close>

definition constants :: "namespaces \<Rightarrow> string \<rightharpoonup> jsval" where
  "constants ns =
     [''chain'' \<mapsto> ns_chain ns, ''node'' \<mapsto> ns_node ns, ''plugins'' \<mapsto> ns_plugins ns,
      ''sockets'' \<mapsto> sockets (ns_chain ns), ''theme'' \<mapsto> ns_theme ns]"

text \<open>\<^verbatim>\<open>transforms.reduce((acc, reducer) => reducer(acc), init)\<close>; a throw leaves the fold.\<close>

fun transform_reduce :: "transform tagged list \<Rightarrow> jsval \<Rightarrow> js_error + jsval" where
  "transform_reduce [] acc = Inr acc"
| "transform_reduce (reducer # rest) acc =
     (case fn reducer acc of Inl e \<Rightarrow> Inl e | Inr acc' \<Rightarrow> transform_reduce rest acc')"

text \<open>
  \<^verbatim>\<open>getConstants\<close> (lines 175-180). For a name that \<^verbatim>\<open>extendConstants\<close> does not
  own there is no array to reduce, whether the lookup yields \<^verbatim>\<open>undefined\<close> or a
  member of \<^verbatim>\<open>Object.prototype\<close>.
\<close>

definition getConstants :: "namespaces \<Rightarrow> 'w runtime \<Rightarrow> string \<Rightarrow> js_error + jsval" where
  "getConstants ns rt name =
     (case extendConstants rt name of
        None \<Rightarrow> Inl (TypeError ''extendConstants[name].reduce is not a function'')
      | Some transforms \<Rightarrow>
          transform_reduce transforms
            (case constants ns name of None \<Rightarrow> inherited name | Some v \<Rightarrow> v))"

section \<open>pluginMiddleware\<close>

text \<open>The inner function \<^verbatim>\<open>nextMiddleware\<close> of lines 185-188, by recursion on \<^verbatim>\<open>remaining\<close>.\<close>

fun nextMiddleware :: "jsval \<Rightarrow> 'w handler \<Rightarrow> 'w middleware tagged list \<Rightarrow> 'w handler" where
  "nextMiddleware store next [] = (\<lambda>action'. next action')"
| "nextMiddleware store next (m # remaining) =
     (\<lambda>action'. fn m store (nextMiddleware store next remaining) action')"

text \<open>
  Line 189 calls the chain and drops its value: the body of the arrow function is a
  block with no \<^verbatim>\<open>return\<close>.
\<close>

definition pluginMiddleware :: "'w runtime \<Rightarrow> jsval \<Rightarrow> 'w handler \<Rightarrow> 'w handler" where
  "pluginMiddleware rt store next action w =
     (case middlewares rt of
        None \<Rightarrow> (Inl (TypeError ''middlewares is undefined''), w)
      | Some ms \<Rightarrow>
          (case nextMiddleware store next ms action w of
             (Inl e, w') \<Rightarrow> (Inl e, w')
           | (Inr v, w') \<Rightarrow> (Inr Undefined, w')))"

section \<open>Route props\<close>

text \<open>
  \<^verbatim>\<open>propsReducerCallback\<close> comes from \<^verbatim>\<open>./utils\<close>, which is not part of the
  sources at hand: it is a parameter. Given the route name, the parent props and the extra
  arguments it yields the callback of the \<^verbatim>\<open>reduce\<close>.
\<close>

type_synonym props_callback =
  "string \<Rightarrow> jsval \<Rightarrow> jsval list \<Rightarrow> jsval \<Rightarrow> propfn \<Rightarrow> js_error + jsval"

fun props_reduce ::
  "(jsval \<Rightarrow> propfn \<Rightarrow> js_error + jsval) \<Rightarrow> propfn list \<Rightarrow> jsval \<Rightarrow> js_error + jsval" where
  "props_reduce cb [] acc = Inr acc"
| "props_reduce cb (d # rest) acc =
     (case cb acc d of Inl e \<Rightarrow> Inl e | Inr acc' \<Rightarrow> props_reduce cb rest acc')"

text \<open>
  \<^verbatim>\<open>getRouteProps\<close> (lines 208-214). \<open>props\<close> is an object, or \<open>None\<close> when the
  argument is left out and the default \<^verbatim>\<open>{}\<close> applies; \<^verbatim>\<open>Object.assign({}, props)\<close>
  is a fresh object with the same entries. For a name that the registry does not own,
  the test of line 209 sees \<^verbatim>\<open>undefined\<close> and the function returns
  \<^verbatim>\<open>parentProps\<close>, unless the name is that of a member of \<^verbatim>\<open>Object.prototype\<close>:
  the test then sees a truthy value, and \<^verbatim>\<open>.reduce\<close> of line 211 is not a function
  (the call throws once its arguments are evaluated, which only builds the callback and
  copies the props).
\<close>

definition getRouteProps ::
  "props_callback \<Rightarrow> 'w runtime \<Rightarrow> string \<Rightarrow> jsval \<Rightarrow> (string \<times> jsval) list option \<Rightarrow> jsval list
     \<Rightarrow> js_error + jsval" where
  "getRouteProps propsReducerCallback rt name parentProps props fnArgs =
     (case routePropsDecorators rt of
        None \<Rightarrow> Inl (TypeError ''routePropsDecorators is undefined'')
      | Some rpd \<Rightarrow>
          (case rpd name of
             None \<Rightarrow>
               (if proto_member name
                then Inl (TypeError ''routePropsDecorators[name].reduce is not a function'')
                else Inr parentProps)
           | Some decorators \<Rightarrow>
               props_reduce (propsReducerCallback name parentProps fnArgs) decorators
                 (Obj (case props of None \<Rightarrow> [] | Some kvs \<Rightarrow> kvs))))"

section \<open>Reducer decoration\<close>

text \<open>
  \<^verbatim>\<open>decorators.reduce((state_, reducer_) => reducer_(state_, action), init)\<close>; the
  primed names stand for the source's names with a trailing underscore.
\<close>

fun reducer_reduce :: "jsval \<Rightarrow> reducer tagged list \<Rightarrow> jsval \<Rightarrow> js_error + jsval" where
  "reducer_reduce action [] state' = Inr state'"
| "reducer_reduce action (reducer' # rest) state' =
     (case fn reducer' state' action of
        Inl e \<Rightarrow> Inl e
      | Inr s \<Rightarrow> reducer_reduce action rest s)"

text \<open>
  \<^verbatim>\<open>decorateReducer\<close> (lines 217-220). \<^verbatim>\<open>Immutable\<close> is the function of the
  library seamless-immutable, a parameter here. The member
  \<^verbatim>\<open>reducersDecorators[name].reduce\<close> is looked up before the base reducer runs:
  for a name that is nowhere the lookup throws. For a name that the registry does not
  own but \<^verbatim>\<open>Object.prototype\<close> has, the member is \<^verbatim>\<open>undefined\<close>, and the call
  throws once its arguments are evaluated, after the base reducer.
\<close>

definition decorateReducer ::
  "(jsval \<Rightarrow> jsval) \<Rightarrow> 'w runtime \<Rightarrow> reducer \<Rightarrow> string \<Rightarrow> jsval \<Rightarrow> jsval \<Rightarrow> js_error + jsval" where
  "decorateReducer Immutable rt reducer name st action =
     (case reducersDecorators rt name of
        None \<Rightarrow>
          (if proto_member name
           then (case reducer st action of
                   Inl e \<Rightarrow> Inl e
                 | Inr s \<Rightarrow> Inl (TypeError ''reducersDecorators[name].reduce is not a function''))
           else Inl (TypeError ''reducersDecorators[name] is undefined''))
      | Some decorators \<Rightarrow>
          (case reducer st action of
             Inl e \<Rightarrow> Inl e
           | Inr s \<Rightarrow> reducer_reduce action decorators (Immutable s)))"

section \<open>Footer\<close>

subsection \<open>Double arithmetic\<close>

text \<open>The fraction \<open>a / (q * 2 ^ e)\<close> as numerator and denominator.\<close>

definition scaled :: "int \<Rightarrow> int \<Rightarrow> int \<Rightarrow> int \<times> int" where
  "scaled a q e = (if 0 \<le> e then (a, q * 2 ^ nat e) else (a * 2 ^ nat (- e), q))"

text \<open>The value \<open>m * 2 ^ e\<close> as numerator and denominator.\<close>

definition dyadic :: "int \<Rightarrow> int \<Rightarrow> int \<times> int" where
  "dyadic m e = (if 0 \<le> e then (m * 2 ^ nat e, 1) else (m, 2 ^ nat (- e)))"

text \<open>A non-negative fraction rounded to the nearest integer, a tie to the even one.\<close>

definition round_half_even :: "int \<times> int \<Rightarrow> int" where
  "round_half_even nd =
     (if snd nd < 2 * (fst nd mod snd nd)
         \<or> (2 * (fst nd mod snd nd) = snd nd \<and> odd (fst nd div snd nd))
      then fst nd div snd nd + 1 else fst nd div snd nd)"

text \<open>
  The exponent \<open>e\<close> at which \<open>a / q\<close> has a significand of 53 bits,
  \<open>2 ^ 52 \<le> a / (q * 2 ^ e) < 2 ^ 53\<close>, and not below the exponent of the subnormal
  numbers. \<open>9007199254740992\<close> is \<open>2 ^ 53\<close>.
\<close>

definition adjust_exponent :: "int \<Rightarrow> int \<Rightarrow> int \<Rightarrow> int" where
  "adjust_exponent a q e =
     (if 9007199254740992 \<le> fst (scaled a q e) div snd (scaled a q e) then e + 1 else e)"

definition binary_exponent :: "int \<Rightarrow> int \<Rightarrow> int" where
  "binary_exponent a q = max (adjust_exponent a q (bitlen a - bitlen q - 53)) (- 1074)"

text \<open>A significand and an exponent as a number; \<open>2 ^ 1024\<close> and beyond is infinite.\<close>

definition pack :: "bool \<Rightarrow> int \<Rightarrow> int \<Rightarrow> jsnum" where
  "pack negative m e =
     (if 1025 \<le> bitlen m + e then (if negative then NegInf else PosInf)
      else Dbl (if negative then - m else m) e)"

definition round_at :: "bool \<Rightarrow> int \<Rightarrow> int \<Rightarrow> int \<Rightarrow> jsnum" where
  "round_at negative a q e = pack negative (round_half_even (scaled a q e)) e"

text \<open>
  The double nearest to the fraction \<open>p / q\<close> (\<open>0 < q\<close>), round-to-nearest with ties
  to even: the value of a decimal literal, and of an exact product.
\<close>

definition nearest_double :: "int \<Rightarrow> int \<Rightarrow> jsnum" where
  "nearest_double p q =
     (if p = 0 then Dbl 0 0 else round_at (p < 0) \<bar>p\<bar> q (binary_exponent \<bar>p\<bar> q))"

text \<open>The operator \<^verbatim>\<open>*\<close> on numbers.\<close>

fun js_times :: "jsnum \<Rightarrow> jsnum \<Rightarrow> jsnum" where
  "js_times NaN y = NaN"
| "js_times x NaN = NaN"
| "js_times (Dbl m1 e1) (Dbl m2 e2) =
     nearest_double (fst (dyadic (m1 * m2) (e1 + e2))) (snd (dyadic (m1 * m2) (e1 + e2)))"
| "js_times (Dbl m e) y =
     (if m = 0 then NaN else if (m < 0) \<noteq> (y = NegInf) then NegInf else PosInf)"
| "js_times x (Dbl m e) =
     (if m = 0 then NaN else if (m < 0) \<noteq> (x = NegInf) then NegInf else PosInf)"
| "js_times x y = (if (x = NegInf) \<noteq> (y = NegInf) then NegInf else PosInf)"

text \<open>
  \<^verbatim>\<open>ToNumber\<close>, which \<^verbatim>\<open>*\<close> applies to its operands. How the engine reads a
  string or an object as a number is the parameter \<open>conv\<close>.
\<close>

fun to_number :: "(jsval \<Rightarrow> jsnum) \<Rightarrow> jsval \<Rightarrow> jsnum" where
  "to_number conv Undefined = NaN"
| "to_number conv Null = Dbl 0 0"
| "to_number conv (Bool b) = (if b then Dbl 1 0 else Dbl 0 0)"
| "to_number conv (Num n) = n"
| "to_number conv v = conv v"

subsection \<open>toFixed\<close>

definition digit_char :: "nat \<Rightarrow> char" where
  "digit_char d = ''0123456789'' ! d"

fun digits10 :: "nat \<Rightarrow> string" where
  "digits10 n = (if n < 10 then [digit_char n] else digits10 (n div 10) @ [digit_char (n mod 10)])"

declare digits10.simps [simp del]

text \<open>With at most \<open>f\<close> digits, zeros are put in front up to \<open>f + 1\<close> digits.\<close>

definition pad_zeros :: "nat \<Rightarrow> string \<Rightarrow> string" where
  "pad_zeros f ds = (if length ds \<le> f then replicate (f + 1 - length ds) CHR ''0'' @ ds else ds)"

definition insert_point :: "nat \<Rightarrow> string \<Rightarrow> string" where
  "insert_point f z = (if f = 0 then z else take (length z - f) z @ ''.'' @ drop (length z - f) z)"

text \<open>
  The integer \<open>n\<close> for which \<open>n / 10 ^ f\<close> is nearest to the fraction, the larger one of
  two.
\<close>

definition fixed_integer :: "nat \<Rightarrow> int \<times> int \<Rightarrow> nat" where
  "fixed_integer f nd = nat ((2 * fst nd * 10 ^ f + snd nd) div (2 * snd nd))"

text \<open>
  \<^verbatim>\<open>Number.prototype.toFixed\<close> for \<open>f \<le> 100\<close> fraction digits. From \<open>10 ^ 21\<close> on
  the result is the engine's \<^verbatim>\<open>ToString\<close> of the number, the parameter
  \<open>number_toString\<close>.
\<close>

definition toFixed :: "(jsnum \<Rightarrow> string) \<Rightarrow> jsnum \<Rightarrow> nat \<Rightarrow> string" where
  "toFixed number_toString x f =
     (case x of
        NaN \<Rightarrow> ''NaN''
      | PosInf \<Rightarrow> ''Infinity''
      | NegInf \<Rightarrow> ''-Infinity''
      | Dbl m e \<Rightarrow>
          (if m < 0 then ''-'' else [])
          @ (if 1000000000000000000000 * snd (dyadic \<bar>m\<bar> e) \<le> fst (dyadic \<bar>m\<bar> e)
             then number_toString (Dbl \<bar>m\<bar> e)
             else insert_point f (pad_zeros f (digits10 (fixed_integer f (dyadic \<bar>m\<bar> e))))))"

subsection \<open>The component\<close>

text \<open>
  The text inside the second \<^verbatim>\<open>Text\<close> element of \<^verbatim>\<open>Footer.render\<close>
  (\<^verbatim>\<open>components/Footer/Footer.js\<close>, lines 18 and 32-34): the expression
  \<^verbatim>\<open>progressPercentage.toFixed(2)\<close> followed by the literal text.
\<close>

definition Footer_progress_text :: "(jsval \<Rightarrow> jsnum) \<Rightarrow> (jsnum \<Rightarrow> string) \<Rightarrow> jsval \<Rightarrow> string" where
  "Footer_progress_text conv number_toString progress =
     toFixed number_toString (js_times (to_number conv progress) (Dbl 100 0)) 2 @ ''% synced''"

section \<open>Notions of the specification\<close>

text \<open>The name and version that the tagging loop writes on the exports of a plugin.\<close>

definition export_name :: "'w plugin \<Rightarrow> string option" where
  "export_name plugin = (case p_metadata plugin of None \<Rightarrow> None | Some md \<Rightarrow> md_name md)"

definition export_version :: "'w plugin \<Rightarrow> string option" where
  "export_version plugin =
     (case p_metadata plugin of None \<Rightarrow> None | Some md \<Rightarrow> md_pluginVersion md)"

text \<open>The middleware of the configured plugins, in the order of the configuration.\<close>

definition middlewares_in_load_order ::
  "(string \<Rightarrow> 'w plugin option) \<Rightarrow> string list \<Rightarrow> 'w middleware tagged list" where
  "middlewares_in_load_order req localPlugins =
     concat (map (\<lambda>pluginName.
       case req pluginName of
         None \<Rightarrow> []
       | Some plugin \<Rightarrow>
           (case p_middleware plugin of
              None \<Rightarrow> []
            | Some f \<Rightarrow> [tagged_export (export_name plugin) (export_version plugin) f]))
       localPlugins)"

text \<open>
  The same for any top-level export: the functions that the configured plugins export
  under one name, tagged, in the order of the configuration.
\<close>

definition plugin_export :: "('w plugin \<Rightarrow> 'f option) \<Rightarrow> 'w plugin \<Rightarrow> 'f tagged list" where
  "plugin_export export plugin =
     (case export plugin of
        None \<Rightarrow> []
      | Some f \<Rightarrow> [tagged_export (export_name plugin) (export_version plugin) f])"

definition exports_in_load_order ::
  "('w plugin \<Rightarrow> 'f option) \<Rightarrow> (string \<Rightarrow> 'w plugin option) \<Rightarrow> string list \<Rightarrow> 'f tagged list" where
  "exports_in_load_order export req localPlugins =
     concat (map (\<lambda>pluginName.
       case req pluginName of None \<Rightarrow> [] | Some plugin \<Rightarrow> plugin_export export plugin)
       localPlugins)"

text \<open>The prop decorators that one plugin, and the configured plugins, give a route.\<close>

definition plugin_route_decorators :: "'w plugin \<Rightarrow> string \<Rightarrow> propfn list" where
  "plugin_route_decorators plugin key =
     (case p_getRouteProps plugin of
        None \<Rightarrow> []
      | Some kfs \<Rightarrow> map snd (filter (\<lambda>kf. fst kf = key \<and> \<not> internal_key key) kfs))"

definition route_decorators_in_load_order ::
  "(string \<Rightarrow> 'w plugin option) \<Rightarrow> string list \<Rightarrow> string \<Rightarrow> propfn list" where
  "route_decorators_in_load_order req localPlugins key =
     concat (map (\<lambda>pluginName.
       case req pluginName of None \<Rightarrow> [] | Some plugin \<Rightarrow> plugin_route_decorators plugin key)
       localPlugins)"

text \<open>
  The registries that a configuration alone determines: each holds the exports of the
  configured plugins, in the order of the configuration, and nothing else; a route has an
  entry when some configured plugin decorates it.
\<close>

definition configured_connectors ::
  "(string \<Rightarrow> 'w plugin option) \<Rightarrow> string list \<Rightarrow> string \<rightharpoonup> connector" where
  "configured_connectors req localPlugins =
     [''App'' \<mapsto> \<lparr>state = exports_in_load_order p_mapAppState req localPlugins,
                     dispatch = exports_in_load_order p_mapAppDispatch req localPlugins\<rparr>,
      ''Panel'' \<mapsto> \<lparr>state = exports_in_load_order p_mapPanelState req localPlugins,
                       dispatch = exports_in_load_order p_mapPanelDispatch req localPlugins\<rparr>]"

definition configured_routes ::
  "(string \<Rightarrow> 'w plugin option) \<Rightarrow> string list \<Rightarrow> string \<rightharpoonup> propfn list" where
  "configured_routes req localPlugins key =
     (if route_decorators_in_load_order req localPlugins key = [] then None
      else Some (route_decorators_in_load_order req localPlugins key))"

definition configured_registries ::
  "(string \<Rightarrow> 'w plugin option) \<Rightarrow> string list \<Rightarrow> 'w runtime \<Rightarrow> bool" where
  "configured_registries req localPlugins rt \<longleftrightarrow>
     connectors rt = Some (configured_connectors req localPlugins)
     \<and> extendConstants rt =
         [''sockets'' \<mapsto> exports_in_load_order p_addSocketsConstants req localPlugins]
     \<and> propsDecorators rt =
         [''getPanelProps'' \<mapsto> exports_in_load_order p_getPanelProps req localPlugins]
     \<and> routePropsDecorators rt = Some (configured_routes req localPlugins)
     \<and> reducersDecorators rt =
         [''chainReducer'' \<mapsto> exports_in_load_order p_reduceChain req localPlugins,
          ''nodeReducer'' \<mapsto> exports_in_load_order p_reduceNode req localPlugins]
     \<and> middlewares rt = Some (exports_in_load_order p_middleware req localPlugins)"

text \<open>The rational number that the double \<open>Dbl m e\<close> stands for.\<close>

definition dbl_value :: "int \<Rightarrow> int \<Rightarrow> rat" where
  "dbl_value m e = (if 0 \<le> e then of_int m * 2 ^ nat e else of_int m / 2 ^ nat (- e))"

section \<open>Example plugins\<close>

definition demo_tag :: "'f \<Rightarrow> 'f tagged" where
  "demo_tag f = \<lparr>fn = f, tag_pluginName = Some ''demo'', tag_pluginVersion = Some ''1.0.0''\<rparr>"

text \<open>The value of \<^verbatim>\<open>new Error(message)\<close>.\<close>

definition error_object :: "string \<Rightarrow> jsval" where
  "error_object message =
     Obj [(''message'', Str message), (''stack'', Str (''Error: '' @ message))]"

text \<open>Mappers that do \<^verbatim>\<open>throw new Error('boom')\<close> and \<^verbatim>\<open>throw null\<close>.\<close>

definition throwing_mapper :: mapper where
  "throwing_mapper x acc = Inl (Thrown (error_object ''boom''))"

definition null_throwing_mapper :: mapper where
  "null_throwing_mapper x acc = Inl (Thrown Null)"

definition string_mapper :: mapper where
  "string_mapper x acc = Inr (Str ''plain'')"

definition merge_mapper :: "string \<Rightarrow> mapper" where
  "merge_mapper k x acc =
     (case acc of Obj kvs \<Rightarrow> Inr (Obj (kvs @ [(k, x)]))
      | _ \<Rightarrow> Inl (TypeError ''acc is not an object''))"

definition empty_stateFn :: "jsval \<Rightarrow> js_error + jsval" where
  "empty_stateFn st = Inr (Obj [])"

definition trace_middleware :: "string \<Rightarrow> string list middleware" where
  "trace_middleware label store next action w = next action (w @ [label])"

definition trace_next :: "string list handler" where
  "trace_next action w = (Inr action, w @ [''next''])"

definition set_key :: "string \<Rightarrow> jsval \<Rightarrow> reducer" where
  "set_key k v st action =
     (case st of Obj kvs \<Rightarrow> Inr (Obj ((k, v) # filter (\<lambda>kv. fst kv \<noteq> k) kvs))
      | _ \<Rightarrow> Inr (Obj [(k, v)]))"

definition base_reducer :: reducer where
  "base_reducer st action = Inr (Obj [(''height'', Str ''base''), (''tip'', action)])"

definition append_listener :: "jsval \<Rightarrow> transform" where
  "append_listener entry ns =
     (case ns of
        Obj kvs \<Rightarrow>
          (case map_of kvs ''listeners'' of
             Some (Arr ls) \<Rightarrow>
               Inr (Obj (map (\<lambda>kv. if fst kv = ''listeners''
                                    then (fst kv, Arr (ls @ [entry])) else kv) kvs))
           | _ \<Rightarrow> Inl (TypeError ''listeners is not iterable''))
      | _ \<Rightarrow> Inl (TypeError ''listeners is not iterable''))"

definition home_props :: propfn where
  "home_props parentProps acc fnArgs = Inr (Obj [(''title'', Str ''home'')])"

definition calling_callback :: props_callback where
  "calling_callback name parentProps fnArgs acc decorator = decorator parentProps acc fnArgs"

definition empty_plugin :: "'w plugin" where
  "empty_plugin =
     \<lparr>p_metadata = None, p_middleware = None, p_mapPanelState = None, p_mapAppState = None,
      p_mapPanelDispatch = None, p_mapAppDispatch = None, p_getRouteProps = None,
      p_getPanelProps = None, p_reduceChain = None, p_reduceNode = None,
      p_addSocketsConstants = None, p_decoratePlugin = None\<rparr>"

definition parent_plugin :: "string list plugin" where
  "parent_plugin =
     empty_plugin\<lparr>p_metadata := Some \<lparr>md_name = Some ''parent'', md_pluginVersion = Some ''1.0.0''\<rparr>,
                  p_middleware := Some (trace_middleware ''parent'')\<rparr>"

text \<open>A plugin with every capability, and a dependency on a plugin that is not configured.\<close>

definition child_plugin :: "string list plugin" where
  "child_plugin =
     \<lparr>p_metadata = Some \<lparr>md_name = Some ''child'', md_pluginVersion = Some ''0.1.0''\<rparr>,
      p_middleware = Some (trace_middleware ''child''),
      p_mapPanelState = Some (merge_mapper ''panel''),
      p_mapAppState = Some (merge_mapper ''app''),
      p_mapPanelDispatch = Some (merge_mapper ''panelDispatch''),
      p_mapAppDispatch = Some (merge_mapper ''appDispatch''),
      p_getRouteProps = Some [(''home'', home_props)],
      p_getPanelProps = Some home_props,
      p_reduceChain = Some (set_key ''height'' (Str ''child'')),
      p_reduceNode = Some (set_key ''node'' (Str ''child'')),
      p_addSocketsConstants =
        Some (append_listener (Obj [(''event'', Str ''x''), (''actionType'', Str ''Y'')])),
      p_decoratePlugin = Some [(''ghost'', Fun ''decorateGhost'')]\<rparr>"

definition kid_plugin :: "string list plugin" where
  "kid_plugin =
     empty_plugin\<lparr>p_metadata := Some \<lparr>md_name = Some ''kid'', md_pluginVersion = Some ''2.0.0''\<rparr>,
                  p_middleware := Some (trace_middleware ''kid''),
                  p_decoratePlugin := Some [(''parent'', Fun ''kidDecorator'')]\<rparr>"

definition setter_plugin :: "string list plugin" where
  "setter_plugin =
     empty_plugin\<lparr>p_metadata := Some \<lparr>md_name = Some ''setter'', md_pluginVersion = Some ''3.0.0''\<rparr>,
                  p_reduceChain := Some (set_key ''height'' (Str ''decorated'')),
                  p_addSocketsConstants :=
                    Some (append_listener (Obj [(''event'', Str ''x''), (''actionType'', Str ''Y'')]))\<rparr>"

definition demo_require :: "string \<Rightarrow> string list plugin option" where
  "demo_require pluginName =
     (if pluginName = ''parent'' then Some parent_plugin
      else if pluginName = ''child'' then Some child_plugin
      else if pluginName = ''kid'' then Some kid_plugin
      else if pluginName = ''setter'' then Some setter_plugin
      else None)"

text \<open>
  A plugin that declares a decorator for a plugin called \<^verbatim>\<open>toString\<close>, which is not
  configured, and the modules of a second directory of local plugins.
\<close>

definition stringer_plugin :: "string list plugin" where
  "stringer_plugin =
     empty_plugin\<lparr>p_metadata := Some \<lparr>md_name = Some ''stringer'', md_pluginVersion = Some ''0.0.1''\<rparr>,
                  p_middleware := Some (trace_middleware ''stringer''),
                  p_decoratePlugin := Some [(''toString'', Fun ''decorateToString'')]\<rparr>"

definition faulty_require :: "string \<Rightarrow> string list plugin option" where
  "faulty_require pluginName =
     (if pluginName = ''parent'' then Some parent_plugin
      else if pluginName = ''stringer'' then Some stringer_plugin
      else None)"

definition null_runtime :: "string list runtime" where
  "null_runtime =
     module_init\<lparr>connectors :=
       Some [''App'' \<mapsto> \<lparr>state = [demo_tag (merge_mapper ''seen''), demo_tag null_throwing_mapper,
                                  demo_tag (merge_mapper ''later'')],
                         dispatch = []\<rparr>]\<rparr>"

definition demo_namespaces :: namespaces where
  "demo_namespaces =
     \<lparr>ns_chain = Obj [(''SET_CHAIN_TIP'', Str ''SET_CHAIN_TIP'')], ns_node = Obj [],
      ns_plugins = Obj [], ns_theme = Obj []\<rparr>"

definition no_conversion :: "jsval \<Rightarrow> jsnum" where
  "no_conversion v = NaN"

definition exponent_toString :: "jsnum \<Rightarrow> string" where
  "exponent_toString n = ''1e+21''"

section \<open>Facts about the folds\<close>

lemma mapper_reduce_append:
  "mapper_reduce name x pre a = (Inr b, lg) \<Longrightarrow>
   mapper_reduce name x (pre @ post) a =
     (case mapper_reduce name x post b of (r, lg') \<Rightarrow> (r, lg @ lg'))"
proof (induction pre arbitrary: a lg)
  case Nil
  then show ?case by (simp add: split_beta)
next
  case (Cons m pre)
  obtain r l where step: "mapper_step name x a m = (r, l)" by (cases "mapper_step name x a m")
  show ?case
  proof (cases r)
    case (Inl e)
    with Cons.prems step show ?thesis by simp
  next
    case (Inr a')
    obtain r' l' where tl: "mapper_reduce name x pre a' = (r', l')"
      by (cases "mapper_reduce name x pre a'")
    from Cons.prems step Inr tl have r': "r' = Inr b" and lg: "lg = l @ l'" by auto
    from Cons.IH[of a' l'] tl r'
    have "mapper_reduce name x (pre @ post) a' =
            (case mapper_reduce name x post b of (r, lg') \<Rightarrow> (r, l' @ lg'))"
      by simp
    with step Inr lg show ?thesis by (simp add: split_beta)
  qed
qed

lemma try_mapper_throw:
  "fn mapper x acc = Inl err \<Longrightarrow> stack err = Inr s \<Longrightarrow>
   try_mapper name x acc mapper = (Inr acc, [thrown_message name mapper s])"
  by (simp add: try_mapper_def)

lemma try_mapper_escape:
  "fn mapper x acc = Inl err \<Longrightarrow> stack err = Inl e \<Longrightarrow>
   try_mapper name x acc mapper = (Inl e, [])"
  by (simp add: try_mapper_def)

text \<open>
  A mapper that throws a value whose \<^verbatim>\<open>stack\<close> can be read, on an accumulator that is
  an object: the step logs and yields the accumulator.
\<close>

lemma mapper_step_throw_object:
  "fn mapper x acc = Inl err \<Longrightarrow> stack err = Inr s \<Longrightarrow> truthy acc \<Longrightarrow>
   typeof acc = ''object'' \<Longrightarrow>
   mapper_step name x acc mapper = (Inr acc, [thrown_message name mapper s])"
  by (simp add: mapper_step_def try_mapper_throw)

lemma readable_throw_keeps_accumulator:
  assumes "connectors rt = Some cs" and "cs name = Some c"
    and "state c = pre @ mapper # post"
    and "stateFn st = Inr init"
    and "mapper_reduce name st pre init = (Inr acc, lg)"
    and "truthy acc" and "typeof acc = ''object''"
    and "fn mapper st acc = Inl err" and "stack err = Inr s"
  shows "connect_state rt stateFn name st =
           (case mapper_reduce name st post acc of
              (r, lg') \<Rightarrow> (r, lg @ thrown_message name mapper s # lg'))"
proof -
  have step: "mapper_step name st acc mapper = (Inr acc, [thrown_message name mapper s])"
    using assms(8,9,6,7) by (rule mapper_step_throw_object)
  have "mapper_reduce name st (pre @ mapper # post) init =
          (case mapper_reduce name st (mapper # post) acc of (r, lg') \<Rightarrow> (r, lg @ lg'))"
    using assms(5) by (rule mapper_reduce_append)
  then show ?thesis
    using assms(1-4) step by (simp add: connect_state_def split_beta)
qed

text \<open>Both derived functions of \<^verbatim>\<open>connect\<close> are this fold, over the two lists of a mount point.\<close>

lemma connect_folds:
  assumes "connectors rt = Some cs" and "cs name = Some c"
  shows "stateFn st = Inr init \<Longrightarrow>
           connect_state rt stateFn name st = mapper_reduce name st (state c) init"
    and "dispatchFn dsp = Inr init' \<Longrightarrow>
           connect_dispatch rt dispatchFn name dsp = mapper_reduce name dsp (dispatch c) init'"
  using assms by (simp_all add: connect_state_def connect_dispatch_def)

lemma nextMiddleware_foldr:
  "nextMiddleware store next ms = foldr (\<lambda>m k. fn m store k) ms next"
  by (induction ms) auto

section \<open>Facts about the load\<close>

lemmas register_defs = register_middleware_def register_mapPanelState_def
  register_mapAppState_def register_mapPanelDispatch_def register_mapAppDispatch_def
  register_getRouteProps_def register_getPanelProps_def register_reduceChain_def
  register_reduceNode_def register_addSocketsConstants_def

lemmas load_simps = loadPlugins_def load_plugin_def load_metadata_def register_exports_def
  register_rest_def register_defs reset_registries_def module_init_def tagged_export_def
  push_at_def push_init_def push_state_def push_dispatch_def internal_key_def
  proto_member_def proto_functions_def known_plugin_def md_truthy_def text_truthy_def
  demo_require_def parent_plugin_def child_plugin_def kid_plugin_def setter_plugin_def
  empty_plugin_def List.map_filter_def

text \<open>Each registration statement writes one registry and leaves the others alone.\<close>

lemma register_steps_plugins [simp]:
  "plugins (register_middleware name ver plugin rt) = plugins rt"
  "plugins (register_mapPanelState name ver plugin rt) = plugins rt"
  "plugins (register_mapAppState name ver plugin rt) = plugins rt"
  "plugins (register_mapPanelDispatch name ver plugin rt) = plugins rt"
  "plugins (register_mapAppDispatch name ver plugin rt) = plugins rt"
  "plugins (snd (register_getRouteProps name ver plugin rt)) = plugins rt"
  "plugins (register_getPanelProps name ver plugin rt) = plugins rt"
  "plugins (register_reduceChain name ver plugin rt) = plugins rt"
  "plugins (register_reduceNode name ver plugin rt) = plugins rt"
  "plugins (register_addSocketsConstants name ver plugin rt) = plugins rt"
  by (simp_all add: register_defs split: option.splits)

lemma register_steps_connectors [simp]:
  "connectors (register_middleware name ver plugin rt) = connectors rt"
  "connectors (snd (register_getRouteProps name ver plugin rt)) = connectors rt"
  "connectors (register_getPanelProps name ver plugin rt) = connectors rt"
  "connectors (register_reduceChain name ver plugin rt) = connectors rt"
  "connectors (register_reduceNode name ver plugin rt) = connectors rt"
  "connectors (register_addSocketsConstants name ver plugin rt) = connectors rt"
  by (simp_all add: register_defs split: option.splits)

lemma register_steps_metadata [simp]:
  "metadata (register_middleware name ver plugin rt) = metadata rt"
  "metadata (register_mapPanelState name ver plugin rt) = metadata rt"
  "metadata (register_mapAppState name ver plugin rt) = metadata rt"
  "metadata (register_mapPanelDispatch name ver plugin rt) = metadata rt"
  "metadata (register_mapAppDispatch name ver plugin rt) = metadata rt"
  "metadata (snd (register_getRouteProps name ver plugin rt)) = metadata rt"
  "metadata (register_getPanelProps name ver plugin rt) = metadata rt"
  "metadata (register_reduceChain name ver plugin rt) = metadata rt"
  "metadata (register_reduceNode name ver plugin rt) = metadata rt"
  "metadata (register_addSocketsConstants name ver plugin rt) = metadata rt"
  by (simp_all add: register_defs split: option.splits)

lemma register_steps_metadata_proto [simp]:
  "metadata_proto (register_middleware name ver plugin rt) = metadata_proto rt"
  "metadata_proto (register_mapPanelState name ver plugin rt) = metadata_proto rt"
  "metadata_proto (register_mapAppState name ver plugin rt) = metadata_proto rt"
  "metadata_proto (register_mapPanelDispatch name ver plugin rt) = metadata_proto rt"
  "metadata_proto (register_mapAppDispatch name ver plugin rt) = metadata_proto rt"
  "metadata_proto (snd (register_getRouteProps name ver plugin rt)) = metadata_proto rt"
  "metadata_proto (register_getPanelProps name ver plugin rt) = metadata_proto rt"
  "metadata_proto (register_reduceChain name ver plugin rt) = metadata_proto rt"
  "metadata_proto (register_reduceNode name ver plugin rt) = metadata_proto rt"
  "metadata_proto (register_addSocketsConstants name ver plugin rt) = metadata_proto rt"
  by (simp_all add: register_defs split: option.splits)

lemma register_steps_middlewares [simp]:
  "middlewares (register_mapPanelState name ver plugin rt) = middlewares rt"
  "middlewares (register_mapAppState name ver plugin rt) = middlewares rt"
  "middlewares (register_mapPanelDispatch name ver plugin rt) = middlewares rt"
  "middlewares (register_mapAppDispatch name ver plugin rt) = middlewares rt"
  "middlewares (snd (register_getRouteProps name ver plugin rt)) = middlewares rt"
  "middlewares (register_getPanelProps name ver plugin rt) = middlewares rt"
  "middlewares (register_reduceChain name ver plugin rt) = middlewares rt"
  "middlewares (register_reduceNode name ver plugin rt) = middlewares rt"
  "middlewares (register_addSocketsConstants name ver plugin rt) = middlewares rt"
  by (simp_all add: register_defs split: option.splits)

lemma register_steps_decorated [simp]:
  "decorated (register_middleware name ver plugin rt) = decorated rt"
  "decorated (register_mapPanelState name ver plugin rt) = decorated rt"
  "decorated (register_mapAppState name ver plugin rt) = decorated rt"
  "decorated (register_mapPanelDispatch name ver plugin rt) = decorated rt"
  "decorated (register_mapAppDispatch name ver plugin rt) = decorated rt"
  "decorated (snd (register_getRouteProps name ver plugin rt)) = decorated rt"
  "decorated (register_getPanelProps name ver plugin rt) = decorated rt"
  "decorated (register_reduceChain name ver plugin rt) = decorated rt"
  "decorated (register_reduceNode name ver plugin rt) = decorated rt"
  "decorated (register_addSocketsConstants name ver plugin rt) = decorated rt"
  by (simp_all add: register_defs split: option.splits)

lemma register_steps_pluginDecorators [simp]:
  "pluginDecorators (register_middleware name ver plugin rt) = pluginDecorators rt"
  "pluginDecorators (register_mapPanelState name ver plugin rt) = pluginDecorators rt"
  "pluginDecorators (register_mapAppState name ver plugin rt) = pluginDecorators rt"
  "pluginDecorators (register_mapPanelDispatch name ver plugin rt) = pluginDecorators rt"
  "pluginDecorators (register_mapAppDispatch name ver plugin rt) = pluginDecorators rt"
  "pluginDecorators (snd (register_getRouteProps name ver plugin rt)) = pluginDecorators rt"
  "pluginDecorators (register_getPanelProps name ver plugin rt) = pluginDecorators rt"
  "pluginDecorators (register_reduceChain name ver plugin rt) = pluginDecorators rt"
  "pluginDecorators (register_reduceNode name ver plugin rt) = pluginDecorators rt"
  "pluginDecorators (register_addSocketsConstants name ver plugin rt) = pluginDecorators rt"
  by (simp_all add: register_defs split: option.splits)

lemma register_steps_propsDecorators [simp]:
  "propsDecorators (register_middleware name ver plugin rt) = propsDecorators rt"
  "propsDecorators (register_mapPanelState name ver plugin rt) = propsDecorators rt"
  "propsDecorators (register_mapAppState name ver plugin rt) = propsDecorators rt"
  "propsDecorators (register_mapPanelDispatch name ver plugin rt) = propsDecorators rt"
  "propsDecorators (register_mapAppDispatch name ver plugin rt) = propsDecorators rt"
  "propsDecorators (snd (register_getRouteProps name ver plugin rt)) = propsDecorators rt"
  "propsDecorators (register_reduceChain name ver plugin rt) = propsDecorators rt"
  "propsDecorators (register_reduceNode name ver plugin rt) = propsDecorators rt"
  "propsDecorators (register_addSocketsConstants name ver plugin rt) = propsDecorators rt"
  by (simp_all add: register_defs split: option.splits)

lemma register_steps_routePropsDecorators [simp]:
  "routePropsDecorators (register_middleware name ver plugin rt) = routePropsDecorators rt"
  "routePropsDecorators (register_mapPanelState name ver plugin rt) = routePropsDecorators rt"
  "routePropsDecorators (register_mapAppState name ver plugin rt) = routePropsDecorators rt"
  "routePropsDecorators (register_mapPanelDispatch name ver plugin rt) = routePropsDecorators rt"
  "routePropsDecorators (register_mapAppDispatch name ver plugin rt) = routePropsDecorators rt"
  "routePropsDecorators (register_getPanelProps name ver plugin rt) = routePropsDecorators rt"
  "routePropsDecorators (register_reduceChain name ver plugin rt) = routePropsDecorators rt"
  "routePropsDecorators (register_reduceNode name ver plugin rt) = routePropsDecorators rt"
  "routePropsDecorators (register_addSocketsConstants name ver plugin rt) = routePropsDecorators rt"
  by (simp_all add: register_defs split: option.splits)

lemma register_steps_reducersDecorators [simp]:
  "reducersDecorators (register_middleware name ver plugin rt) = reducersDecorators rt"
  "reducersDecorators (register_mapPanelState name ver plugin rt) = reducersDecorators rt"
  "reducersDecorators (register_mapAppState name ver plugin rt) = reducersDecorators rt"
  "reducersDecorators (register_mapPanelDispatch name ver plugin rt) = reducersDecorators rt"
  "reducersDecorators (register_mapAppDispatch name ver plugin rt) = reducersDecorators rt"
  "reducersDecorators (snd (register_getRouteProps name ver plugin rt)) = reducersDecorators rt"
  "reducersDecorators (register_getPanelProps name ver plugin rt) = reducersDecorators rt"
  "reducersDecorators (register_addSocketsConstants name ver plugin rt) = reducersDecorators rt"
  by (simp_all add: register_defs split: option.splits)

lemma register_steps_extendConstants [simp]:
  "extendConstants (register_middleware name ver plugin rt) = extendConstants rt"
  "extendConstants (register_mapPanelState name ver plugin rt) = extendConstants rt"
  "extendConstants (register_mapAppState name ver plugin rt) = extendConstants rt"
  "extendConstants (register_mapPanelDispatch name ver plugin rt) = extendConstants rt"
  "extendConstants (register_mapAppDispatch name ver plugin rt) = extendConstants rt"
  "extendConstants (snd (register_getRouteProps name ver plugin rt)) = extendConstants rt"
  "extendConstants (register_getPanelProps name ver plugin rt) = extendConstants rt"
  "extendConstants (register_reduceChain name ver plugin rt) = extendConstants rt"
  "extendConstants (register_reduceNode name ver plugin rt) = extendConstants rt"
  by (simp_all add: register_defs split: option.splits)

text \<open>What each registration statement appends.\<close>

lemma load_metadata_cases:
  "load_metadata pluginName plugin rt =
     (export_name plugin, export_version plugin,
      (case p_metadata plugin of
         None \<Rightarrow> rt
       | Some md \<Rightarrow>
           (if pluginName = ''__proto__'' then rt\<lparr>metadata_proto := Some md\<rparr>
            else rt\<lparr>metadata := (metadata rt)(pluginName \<mapsto> md)\<rparr>)),
      (case p_metadata plugin of
         None \<Rightarrow> [metadata_message pluginName]
       | Some md \<Rightarrow> []))"
  by (simp add: load_metadata_def export_name_def export_version_def split: option.splits)

lemma exports_in_load_order_snoc:
  "req pluginName = Some plugin \<Longrightarrow>
   exports_in_load_order export req (loaded @ [pluginName]) =
     exports_in_load_order export req loaded @ plugin_export export plugin"
  by (simp add: exports_in_load_order_def)

lemma exports_in_load_order_Nil [simp]: "exports_in_load_order export req [] = []"
  by (simp add: exports_in_load_order_def)

lemma route_decorators_snoc:
  "req pluginName = Some plugin \<Longrightarrow>
   route_decorators_in_load_order req (loaded @ [pluginName]) key =
     route_decorators_in_load_order req loaded key @ plugin_route_decorators plugin key"
  by (simp add: route_decorators_in_load_order_def)

lemma middlewares_in_load_order_exports:
  "middlewares_in_load_order req localPlugins = exports_in_load_order p_middleware req localPlugins"
  unfolding middlewares_in_load_order_def exports_in_load_order_def plugin_export_def
  by (rule refl)

lemma effect_middleware:
  "middlewares (register_middleware (export_name plugin) (export_version plugin) plugin rt) =
     map_option (\<lambda>ms. ms @ plugin_export p_middleware plugin) (middlewares rt)"
  by (simp add: register_middleware_def plugin_export_def option.map_ident split: option.splits)

lemma effect_mapPanelState:
  "connectors rt = Some [''App'' \<mapsto> a, ''Panel'' \<mapsto> p] \<Longrightarrow>
   connectors (register_mapPanelState (export_name plugin) (export_version plugin) plugin rt) =
     Some [''App'' \<mapsto> a,
           ''Panel'' \<mapsto> p\<lparr>state := state p @ plugin_export p_mapPanelState plugin\<rparr>]"
  by (simp add: register_mapPanelState_def plugin_export_def push_state_def
        split: option.splits)

lemma effect_mapPanelDispatch:
  "connectors rt = Some [''App'' \<mapsto> a, ''Panel'' \<mapsto> p] \<Longrightarrow>
   connectors (register_mapPanelDispatch (export_name plugin) (export_version plugin) plugin rt) =
     Some [''App'' \<mapsto> a,
           ''Panel'' \<mapsto> p\<lparr>dispatch := dispatch p @ plugin_export p_mapPanelDispatch plugin\<rparr>]"
  by (simp add: register_mapPanelDispatch_def plugin_export_def push_dispatch_def
        split: option.splits)

lemma effect_mapAppState:
  "connectors rt = Some [''App'' \<mapsto> a, ''Panel'' \<mapsto> p] \<Longrightarrow>
   connectors (register_mapAppState (export_name plugin) (export_version plugin) plugin rt) =
     Some [''App'' \<mapsto> a\<lparr>state := state a @ plugin_export p_mapAppState plugin\<rparr>,
           ''Panel'' \<mapsto> p]"
  by (auto simp: register_mapAppState_def plugin_export_def push_state_def fun_upd_twist
        split: option.splits)

lemma effect_mapAppDispatch:
  "connectors rt = Some [''App'' \<mapsto> a, ''Panel'' \<mapsto> p] \<Longrightarrow>
   connectors (register_mapAppDispatch (export_name plugin) (export_version plugin) plugin rt) =
     Some [''App'' \<mapsto> a\<lparr>dispatch := dispatch a @ plugin_export p_mapAppDispatch plugin\<rparr>,
           ''Panel'' \<mapsto> p]"
  by (auto simp: register_mapAppDispatch_def plugin_export_def push_dispatch_def fun_upd_twist
        split: option.splits)

lemma effect_getPanelProps:
  "propsDecorators rt = [''getPanelProps'' \<mapsto> xs] \<Longrightarrow>
   propsDecorators (register_getPanelProps (export_name plugin) (export_version plugin) plugin rt) =
     [''getPanelProps'' \<mapsto> xs @ plugin_export p_getPanelProps plugin]"
  by (simp add: register_getPanelProps_def plugin_export_def push_at_def split: option.splits)

lemma effect_reduceChain:
  "reducersDecorators rt = [''chainReducer'' \<mapsto> cs, ''nodeReducer'' \<mapsto> ns] \<Longrightarrow>
   reducersDecorators (register_reduceChain (export_name plugin) (export_version plugin) plugin rt) =
     [''chainReducer'' \<mapsto> cs @ plugin_export p_reduceChain plugin, ''nodeReducer'' \<mapsto> ns]"
  by (auto simp: register_reduceChain_def plugin_export_def push_at_def fun_upd_twist
        split: option.splits)

lemma effect_reduceNode:
  "reducersDecorators rt = [''chainReducer'' \<mapsto> cs, ''nodeReducer'' \<mapsto> ns] \<Longrightarrow>
   reducersDecorators (register_reduceNode (export_name plugin) (export_version plugin) plugin rt) =
     [''chainReducer'' \<mapsto> cs, ''nodeReducer'' \<mapsto> ns @ plugin_export p_reduceNode plugin]"
  by (simp add: register_reduceNode_def plugin_export_def push_at_def split: option.splits)

lemma effect_addSocketsConstants:
  "extendConstants rt = [''sockets'' \<mapsto> xs] \<Longrightarrow>
   extendConstants (register_addSocketsConstants (export_name plugin) (export_version plugin)
       plugin rt) =
     [''sockets'' \<mapsto> xs @ plugin_export p_addSocketsConstants plugin]"
  by (simp add: register_addSocketsConstants_def plugin_export_def push_at_def
        split: option.splits)

text \<open>The route loop, when it does not throw, appends to each route the plugin's decorators.\<close>

lemma route_loop_ok:
  "fst (route_loop rpd kfs) = None \<Longrightarrow>
   snd (route_loop rpd kfs) key =
     (if map snd (filter (\<lambda>kf. fst kf = key \<and> \<not> internal_key key) kfs) = [] then rpd key
      else Some ((case rpd key of None \<Rightarrow> [] | Some xs \<Rightarrow> xs)
                 @ map snd (filter (\<lambda>kf. fst kf = key \<and> \<not> internal_key key) kfs)))"
proof (induction rpd kfs rule: route_loop.induct)
  case (1 rpd)
  then show ?case by simp
next
  case (2 rpd k f rest)
  show ?case
  proof (cases "internal_key k")
    case True
    with 2 show ?thesis by auto
  next
    case False
    with "2.prems" have nothrow: "\<not> (rpd k = None \<and> proto_member k)"
      by (auto split: if_splits)
    with False "2.prems" have "fst (route_loop (push_init rpd k f) rest) = None" by simp
    with "2.IH"(2)[OF False nothrow]
    have "snd (route_loop (push_init rpd k f) rest) key =
       (if map snd (filter (\<lambda>kf. fst kf = key \<and> \<not> internal_key key) rest) = []
        then push_init rpd k f key
        else Some ((case push_init rpd k f key of None \<Rightarrow> [] | Some xs \<Rightarrow> xs)
                   @ map snd (filter (\<lambda>kf. fst kf = key \<and> \<not> internal_key key) rest)))"
      by simp
    with False nothrow show ?thesis
      by (auto simp: push_init_def split: option.splits)
  qed
qed

lemma effect_getRouteProps:
  "fst (register_getRouteProps name ver plugin rt) = None \<Longrightarrow>
   routePropsDecorators rt = Some rpd \<Longrightarrow>
   routePropsDecorators (snd (register_getRouteProps name ver plugin rt)) =
     Some (\<lambda>key. if plugin_route_decorators plugin key = [] then rpd key
                  else Some ((case rpd key of None \<Rightarrow> [] | Some xs \<Rightarrow> xs)
                             @ plugin_route_decorators plugin key))"
  by (auto simp: register_getRouteProps_def plugin_route_decorators_def route_loop_ok
        split: option.splits)

text \<open>The registration statements as a whole.\<close>

lemma register_exports_keeps [simp]:
  "plugins (snd (register_exports name ver plugin rt)) = plugins rt"
  "metadata (snd (register_exports name ver plugin rt)) = metadata rt"
  "metadata_proto (snd (register_exports name ver plugin rt)) = metadata_proto rt"
  "decorated (snd (register_exports name ver plugin rt)) = decorated rt"
  "pluginDecorators (snd (register_exports name ver plugin rt)) = pluginDecorators rt"
  by (simp_all add: register_exports_def register_rest_def Let_def split: option.splits)

lemma register_exports_ok:
  assumes "fst (register_exports name ver plugin rt) = None"
  shows "fst (register_getRouteProps name ver plugin
           (register_mapAppDispatch name ver plugin
             (register_mapPanelDispatch name ver plugin
               (register_mapAppState name ver plugin
                 (register_mapPanelState name ver plugin
                   (register_middleware name ver plugin rt)))))) = None"
    and "snd (register_exports name ver plugin rt) =
           register_rest name ver plugin
             (snd (register_getRouteProps name ver plugin
               (register_mapAppDispatch name ver plugin
                 (register_mapPanelDispatch name ver plugin
                   (register_mapAppState name ver plugin
                     (register_mapPanelState name ver plugin
                       (register_middleware name ver plugin rt)))))))"
  using assms by (simp_all add: register_exports_def Let_def split: option.splits)

lemma configured_routes_snoc:
  assumes "req pluginName = Some plugin"
  shows "(\<lambda>key. if plugin_route_decorators plugin key = [] then configured_routes req loaded key
               else Some ((case configured_routes req loaded key of None \<Rightarrow> [] | Some xs \<Rightarrow> xs)
                          @ plugin_route_decorators plugin key))
         = configured_routes req (loaded @ [pluginName])"
  by (rule ext) (simp add: configured_routes_def route_decorators_snoc[where req = req and pluginName = pluginName and plugin = plugin, OF assms])

lemma register_exports_configured:
  assumes req: "req pluginName = Some plugin"
    and inv: "configured_registries req loaded rt"
    and ok: "fst (register_exports (export_name plugin) (export_version plugin) plugin rt) = None"
  shows "configured_registries req (loaded @ [pluginName])
           (snd (register_exports (export_name plugin) (export_version plugin) plugin rt))"
proof -
  let ?n = "export_name plugin" and ?v = "export_version plugin"
  let ?rt1 = "register_middleware ?n ?v plugin rt"
  let ?rt2 = "register_mapPanelState ?n ?v plugin ?rt1"
  let ?rt3 = "register_mapAppState ?n ?v plugin ?rt2"
  let ?rt4 = "register_mapPanelDispatch ?n ?v plugin ?rt3"
  let ?rt5 = "register_mapAppDispatch ?n ?v plugin ?rt4"
  let ?rt6 = "snd (register_getRouteProps ?n ?v plugin ?rt5)"
  let ?rt7 = "register_getPanelProps ?n ?v plugin ?rt6"
  let ?rt8 = "register_reduceChain ?n ?v plugin ?rt7"
  let ?rt9 = "register_reduceNode ?n ?v plugin ?rt8"
  let ?rt10 = "register_addSocketsConstants ?n ?v plugin ?rt9"
  have routes_ok: "fst (register_getRouteProps ?n ?v plugin ?rt5) = None"
    using ok by (rule register_exports_ok(1))
  have res: "snd (register_exports ?n ?v plugin rt) = ?rt10"
    using ok by (simp add: register_exports_ok(2) register_rest_def Let_def)
  from inv have c0: "connectors rt = Some (configured_connectors req loaded)"
    and e0: "extendConstants rt =
              [''sockets'' \<mapsto> exports_in_load_order p_addSocketsConstants req loaded]"
    and p0: "propsDecorators rt =
              [''getPanelProps'' \<mapsto> exports_in_load_order p_getPanelProps req loaded]"
    and r0: "routePropsDecorators rt = Some (configured_routes req loaded)"
    and d0: "reducersDecorators rt =
              [''chainReducer'' \<mapsto> exports_in_load_order p_reduceChain req loaded,
               ''nodeReducer'' \<mapsto> exports_in_load_order p_reduceNode req loaded]"
    and m0: "middlewares rt = Some (exports_in_load_order p_middleware req loaded)"
    by (simp_all add: configured_registries_def)
  have m: "middlewares ?rt10 = Some (exports_in_load_order p_middleware req (loaded @ [pluginName]))"
    by (simp add: effect_middleware m0 exports_in_load_order_snoc[where req = req and pluginName = pluginName and plugin = plugin, OF req])
  have c1: "connectors ?rt1 = Some (configured_connectors req loaded)"
    using c0 by simp
  have c2: "connectors ?rt2 =
      Some [''App'' \<mapsto> \<lparr>state = exports_in_load_order p_mapAppState req loaded,
                          dispatch = exports_in_load_order p_mapAppDispatch req loaded\<rparr>,
            ''Panel'' \<mapsto> \<lparr>state = exports_in_load_order p_mapPanelState req (loaded @ [pluginName]),
                            dispatch = exports_in_load_order p_mapPanelDispatch req loaded\<rparr>]"
    using c1 by (simp add: effect_mapPanelState configured_connectors_def
        exports_in_load_order_snoc[where req = req and pluginName = pluginName and plugin = plugin, OF req])
  have c3: "connectors ?rt3 =
      Some [''App'' \<mapsto> \<lparr>state = exports_in_load_order p_mapAppState req (loaded @ [pluginName]),
                          dispatch = exports_in_load_order p_mapAppDispatch req loaded\<rparr>,
            ''Panel'' \<mapsto> \<lparr>state = exports_in_load_order p_mapPanelState req (loaded @ [pluginName]),
                            dispatch = exports_in_load_order p_mapPanelDispatch req loaded\<rparr>]"
    using c2 by (simp add: effect_mapAppState exports_in_load_order_snoc[where req = req and pluginName = pluginName and plugin = plugin, OF req])
  have c4: "connectors ?rt4 =
      Some [''App'' \<mapsto> \<lparr>state = exports_in_load_order p_mapAppState req (loaded @ [pluginName]),
                          dispatch = exports_in_load_order p_mapAppDispatch req loaded\<rparr>,
            ''Panel'' \<mapsto> \<lparr>state = exports_in_load_order p_mapPanelState req (loaded @ [pluginName]),
                            dispatch = exports_in_load_order p_mapPanelDispatch req
                                         (loaded @ [pluginName])\<rparr>]"
    using c3 by (simp add: effect_mapPanelDispatch exports_in_load_order_snoc[where req = req and pluginName = pluginName and plugin = plugin, OF req])
  have c5: "connectors ?rt5 = Some (configured_connectors req (loaded @ [pluginName]))"
    using c4 by (simp add: effect_mapAppDispatch configured_connectors_def
        exports_in_load_order_snoc[where req = req and pluginName = pluginName and plugin = plugin, OF req])
  have c: "connectors ?rt10 = Some (configured_connectors req (loaded @ [pluginName]))"
    using c5 by simp
  have r5: "routePropsDecorators ?rt5 = Some (configured_routes req loaded)"
    using r0 by simp
  have r6: "routePropsDecorators ?rt6 = Some (configured_routes req (loaded @ [pluginName]))"
    using effect_getRouteProps[OF routes_ok r5] by (simp add: configured_routes_snoc[where req = req and pluginName = pluginName and plugin = plugin, OF req])
  have r: "routePropsDecorators ?rt10 = Some (configured_routes req (loaded @ [pluginName]))"
    using r6 by simp
  have p6: "propsDecorators ?rt6 =
              [''getPanelProps'' \<mapsto> exports_in_load_order p_getPanelProps req loaded]"
    using p0 by simp
  have p: "propsDecorators ?rt10 =
              [''getPanelProps'' \<mapsto> exports_in_load_order p_getPanelProps req (loaded @ [pluginName])]"
    using p6 by (simp add: effect_getPanelProps exports_in_load_order_snoc[where req = req and pluginName = pluginName and plugin = plugin, OF req])
  have d7: "reducersDecorators ?rt7 =
              [''chainReducer'' \<mapsto> exports_in_load_order p_reduceChain req loaded,
               ''nodeReducer'' \<mapsto> exports_in_load_order p_reduceNode req loaded]"
    using d0 by simp
  have d8: "reducersDecorators ?rt8 =
              [''chainReducer'' \<mapsto> exports_in_load_order p_reduceChain req (loaded @ [pluginName]),
               ''nodeReducer'' \<mapsto> exports_in_load_order p_reduceNode req loaded]"
    using d7 by (simp add: effect_reduceChain exports_in_load_order_snoc[where req = req and pluginName = pluginName and plugin = plugin, OF req])
  have d: "reducersDecorators ?rt10 =
              [''chainReducer'' \<mapsto> exports_in_load_order p_reduceChain req (loaded @ [pluginName]),
               ''nodeReducer'' \<mapsto> exports_in_load_order p_reduceNode req (loaded @ [pluginName])]"
    using d8 by (simp add: effect_reduceNode exports_in_load_order_snoc[where req = req and pluginName = pluginName and plugin = plugin, OF req])
  have e9: "extendConstants ?rt9 =
              [''sockets'' \<mapsto> exports_in_load_order p_addSocketsConstants req loaded]"
    using e0 by simp
  have e: "extendConstants ?rt10 =
              [''sockets'' \<mapsto> exports_in_load_order p_addSocketsConstants req (loaded @ [pluginName])]"
    using e9 by (simp add: effect_addSocketsConstants exports_in_load_order_snoc[where req = req and pluginName = pluginName and plugin = plugin, OF req])
  show ?thesis
    unfolding configured_registries_def res
    using c e p r d m by blast
qed

text \<open>The metadata statement and the dependency loop write no registry.\<close>

lemma configured_registries_cong:
  "connectors rt' = connectors rt \<Longrightarrow> extendConstants rt' = extendConstants rt \<Longrightarrow>
   propsDecorators rt' = propsDecorators rt \<Longrightarrow>
   routePropsDecorators rt' = routePropsDecorators rt \<Longrightarrow>
   reducersDecorators rt' = reducersDecorators rt \<Longrightarrow> middlewares rt' = middlewares rt \<Longrightarrow>
   configured_registries req loaded rt' = configured_registries req loaded rt"
  by (simp add: configured_registries_def)

lemma load_plugin_configured:
  assumes req: "req pluginName = Some plugin"
    and inv: "configured_registries req loaded rt"
    and load: "load_plugin pluginName plugin rt = (Inr r, rt', lg)"
  shows "configured_registries req (loaded @ [pluginName]) rt'"
proof -
  let ?rt1 = "case p_metadata plugin of
         None \<Rightarrow> rt
       | Some md \<Rightarrow>
           (if pluginName = ''__proto__'' then rt\<lparr>metadata_proto := Some md\<rparr>
            else rt\<lparr>metadata := (metadata rt)(pluginName \<mapsto> md)\<rparr>)"
  let ?reg = "register_exports (export_name plugin) (export_version plugin) plugin ?rt1"
  have inv1: "configured_registries req loaded ?rt1"
    using inv by (simp add: configured_registries_def split: option.splits)
  have ok: "fst ?reg = None"
    using load
    by (auto simp: load_plugin_def load_metadata_cases Let_def split_beta
          split: option.splits sum.splits)
  have same: "configured_registries req (loaded @ [pluginName]) rt' =
              configured_registries req (loaded @ [pluginName]) (snd ?reg)"
    using load
    by (intro configured_registries_cong)
       (auto simp: load_plugin_def load_metadata_cases Let_def split_beta
          split: option.splits sum.splits)
  from register_exports_configured[OF req inv1 ok] same show ?thesis by simp
qed

lemma map_plugins_configured:
  "configured_registries req loaded rt \<Longrightarrow> map_plugins req rest rt = (Inr rs, rt', lg) \<Longrightarrow>
   configured_registries req (loaded @ rest) rt'"
proof (induction rest arbitrary: loaded rt rs lg)
  case Nil
  then show ?case by simp
next
  case (Cons pluginName rest)
  from Cons.prems(2) obtain plugin where req: "req pluginName = Some plugin"
    by (cases "req pluginName") auto
  obtain r1 rt1 lg1 where load: "load_plugin pluginName plugin rt = (r1, rt1, lg1)"
    by (cases "load_plugin pluginName plugin rt") auto
  from Cons.prems(2) req load obtain p where r1: "r1 = Inr p"
    by (cases r1) auto
  obtain r2 rt2 lg2 where tl: "map_plugins req rest rt1 = (r2, rt2, lg2)"
    by (cases "map_plugins req rest rt1") auto
  from Cons.prems(2) req load r1 tl obtain rs' where r2: "r2 = Inr rs'" and rt': "rt' = rt2"
    by (cases r2) auto
  from load_plugin_configured[OF req Cons.prems(1)] load r1
  have "configured_registries req (loaded @ [pluginName]) rt1" by simp
  from Cons.IH[OF this] tl r2 rt' show ?case by simp
qed

lemma reset_configured: "configured_registries req [] (reset_registries rt)"
  by (simp add: configured_registries_def reset_registries_def configured_connectors_def
        configured_routes_def route_decorators_in_load_order_def fun_eq_iff)

lemma loadPlugins_configured:
  assumes "loadPlugins localPlugins req rt = (Inr (), rt', lg)"
  shows "configured_registries req localPlugins rt'"
proof -
  obtain r rt1 lg1 where m: "map_plugins req localPlugins (reset_registries rt) = (r, rt1, lg1)"
    by (cases "map_plugins req localPlugins (reset_registries rt)") auto
  with assms obtain rs where r: "r = Inr rs"
    and rt': "rt' = rt1\<lparr>plugins := Some (List.map_filter (\<lambda>r. r) rs)\<rparr>"
    by (cases r) (auto simp: loadPlugins_def)
  from map_plugins_configured[OF reset_configured, of req localPlugins rt rs rt1 lg1] m r
  have "configured_registries req localPlugins rt1" by simp
  then show ?thesis by (simp add: rt' configured_registries_def)
qed

text \<open>What a load never resets.\<close>

lemma decorate_loop_grows:
  "pd k = Some ds \<Longrightarrow>
   \<exists>ds'. fst (snd (decorate_loop name known kds pd)) k = Some (ds @ ds')"
proof (induction name known kds pd arbitrary: ds rule: decorate_loop.induct)
  case (1 name known pd)
  then show ?case by simp
next
  case (2 name known key d rest pd)
  show ?case
  proof (cases "internal_key key")
    case True
    with 2 show ?thesis by simp
  next
    case notint: False
    show ?thesis
    proof (cases "known key")
      case False
      with notint "2.prems" show ?thesis by simp
    next
      case known: True
      show ?thesis
      proof (cases "pd key = None \<and> proto_member key")
        case True
        with notint known "2.prems" show ?thesis by simp
      next
        case False
        have "\<exists>ds1. push_init pd key d k = Some (ds @ ds1)"
          using "2.prems" by (auto simp: push_init_def)
        then obtain ds1 where "push_init pd key d k = Some (ds @ ds1)" by blast
        from "2.IH"(2)[OF notint _ False this] known
        obtain ds2 where
          "fst (snd (decorate_loop name known rest (push_init pd key d))) k
             = Some ((ds @ ds1) @ ds2)"
          by auto
        with notint known False show ?thesis by auto
      qed
    qed
  qed
qed

lemma load_plugin_retains:
  "decorated (fst (snd (load_plugin pluginName plugin rt))) = decorated rt"
  "plugins (fst (snd (load_plugin pluginName plugin rt))) = plugins rt"
  "k \<noteq> pluginName \<Longrightarrow> metadata (fst (snd (load_plugin pluginName plugin rt))) k = metadata rt k"
  "metadata rt k \<noteq> None \<Longrightarrow> metadata (fst (snd (load_plugin pluginName plugin rt))) k \<noteq> None"
  by (auto simp: load_plugin_def load_metadata_cases Let_def split_beta
        split: option.splits sum.splits)

lemma load_plugin_grows:
  assumes "pluginDecorators rt k = Some ds"
  shows "\<exists>ds'. pluginDecorators (fst (snd (load_plugin pluginName plugin rt))) k = Some (ds @ ds')"
proof (cases "p_decoratePlugin plugin")
  case None
  then show ?thesis using assms
    by (auto simp: load_plugin_def load_metadata_cases Let_def split_beta split: option.splits)
next
  case (Some kds)
  let ?rt1 = "case p_metadata plugin of
         None \<Rightarrow> rt
       | Some md \<Rightarrow>
           (if pluginName = ''__proto__'' then rt\<lparr>metadata_proto := Some md\<rparr>
            else rt\<lparr>metadata := (metadata rt)(pluginName \<mapsto> md)\<rparr>)"
  let ?reg = "register_exports (export_name plugin) (export_version plugin) plugin ?rt1"
  have "pluginDecorators (snd ?reg) k = Some ds"
    using assms by (simp split: option.splits)
  from decorate_loop_grows[where pd = "pluginDecorators (snd ?reg)" and k = k and ds = ds
      and name = "export_name plugin" and known = "known_plugin (snd ?reg)" and kds = kds, OF this]
  obtain ds' where
    "fst (snd (decorate_loop (export_name plugin) (known_plugin (snd ?reg)) kds
                 (pluginDecorators (snd ?reg)))) k = Some (ds @ ds')"
    by blast
  then show ?thesis using Some assms
    by (auto simp: load_plugin_def load_metadata_cases Let_def split_beta
          split: option.splits sum.splits)
qed

lemma map_plugins_state:
  "fst (snd (map_plugins req (pluginName # rest) rt)) =
     (case req pluginName of
        None \<Rightarrow> rt
      | Some plugin \<Rightarrow>
          (case fst (load_plugin pluginName plugin rt) of
             Inl e \<Rightarrow> fst (snd (load_plugin pluginName plugin rt))
           | Inr r \<Rightarrow> fst (snd (map_plugins req rest (fst (snd (load_plugin pluginName plugin rt)))))))"
  by (simp add: split_beta split: option.splits sum.splits prod.splits)

lemma map_plugins_retains:
  "decorated (fst (snd (map_plugins req localPlugins rt))) = decorated rt
   \<and> plugins (fst (snd (map_plugins req localPlugins rt))) = plugins rt
   \<and> (k \<notin> set localPlugins \<longrightarrow>
        metadata (fst (snd (map_plugins req localPlugins rt))) k = metadata rt k)
   \<and> (metadata rt k \<noteq> None \<longrightarrow> metadata (fst (snd (map_plugins req localPlugins rt))) k \<noteq> None)
   \<and> (pluginDecorators rt k = Some ds \<longrightarrow>
        (\<exists>ds'. pluginDecorators (fst (snd (map_plugins req localPlugins rt))) k
                 = Some (ds @ ds')))"
proof (induction localPlugins arbitrary: rt ds)
  case Nil
  then show ?case by simp
next
  case (Cons pluginName rest)
  show ?case
  proof (cases "req pluginName")
    case None
    then show ?thesis by simp
  next
    case (Some plugin)
    let ?rt1 = "fst (snd (load_plugin pluginName plugin rt))"
    have grow: "\<exists>ds1. pluginDecorators ?rt1 k = Some (ds @ ds1)"
      if "pluginDecorators rt k = Some ds"
      using load_plugin_grows[where rt = rt and k = k and ds = ds, OF that] .
    show ?thesis
    proof (cases "fst (load_plugin pluginName plugin rt)")
      case (Inl e)
      with Some have st: "fst (snd (map_plugins req (pluginName # rest) rt)) = ?rt1"
        by (simp only: map_plugins_state) simp
      show ?thesis
        unfolding st using grow by (auto simp: load_plugin_retains)
    next
      case (Inr r)
      with Some have st: "fst (snd (map_plugins req (pluginName # rest) rt))
          = fst (snd (map_plugins req rest ?rt1))"
        by (simp only: map_plugins_state) simp
      have c: "\<exists>ds'. pluginDecorators (fst (snd (map_plugins req rest ?rt1))) k = Some (ds @ ds')"
        if pk: "pluginDecorators rt k = Some ds"
      proof -
        from grow[OF pk] obtain ds1 where "pluginDecorators ?rt1 k = Some (ds @ ds1)" by blast
        with Cons.IH[of ?rt1 "ds @ ds1"] show ?thesis by auto
      qed
      show ?thesis
        unfolding st using Cons.IH[of ?rt1 ds] c by (auto simp: load_plugin_retains)
    qed
  qed
qed

lemma loadPlugins_state:
  "decorated (fst (snd (loadPlugins localPlugins req rt)))
     = decorated (fst (snd (map_plugins req localPlugins (reset_registries rt))))"
  "metadata (fst (snd (loadPlugins localPlugins req rt)))
     = metadata (fst (snd (map_plugins req localPlugins (reset_registries rt))))"
  "pluginDecorators (fst (snd (loadPlugins localPlugins req rt)))
     = pluginDecorators (fst (snd (map_plugins req localPlugins (reset_registries rt))))"
  by (simp_all add: loadPlugins_def split_beta split: sum.splits prod.splits)

lemma loadPlugins_retains:
  "decorated (fst (snd (loadPlugins localPlugins req rt))) = decorated rt
   \<and> (k \<notin> set localPlugins \<longrightarrow>
        metadata (fst (snd (loadPlugins localPlugins req rt))) k = metadata rt k)
   \<and> (metadata rt k \<noteq> None \<longrightarrow> metadata (fst (snd (loadPlugins localPlugins req rt))) k \<noteq> None)
   \<and> (pluginDecorators rt k = Some ds \<longrightarrow>
        (\<exists>ds'. pluginDecorators (fst (snd (loadPlugins localPlugins req rt))) k
                 = Some (ds @ ds')))"
  using map_plugins_retains[of req localPlugins "reset_registries rt" k ds]
  by (simp add: loadPlugins_state reset_registries_def)

lemma reset_registries_independent:
  "reset_registries (rt\<lparr>connectors := c, extendConstants := ec, propsDecorators := pd,
       routePropsDecorators := rpd, reducersDecorators := rd, middlewares := ms\<rparr>)
     = reset_registries rt"
  by (simp add: reset_registries_def)

text \<open>A dependency on a name that \<^verbatim>\<open>Object.prototype\<close> has.\<close>

lemma known_plugin_prototype: "proto_member key \<Longrightarrow> known_plugin rt key"
  by (auto simp: known_plugin_def md_truthy_def proto_member_def proto_functions_def
        split: option.splits)

lemma load_plugin_prototype_dependency:
  assumes "p_decoratePlugin plugin = Some ((key, d) # rest)"
    and "\<not> internal_key key" and "proto_member key"
    and "pluginDecorators rt key = None"
  shows "\<exists>e. fst (load_plugin pluginName plugin rt) = Inl e"
    and "snd (snd (load_plugin pluginName plugin rt)) =
           (case p_metadata plugin of None \<Rightarrow> [metadata_message pluginName] | Some md \<Rightarrow> [])"
  using assms
  by (auto simp: load_plugin_def load_metadata_cases Let_def split_beta known_plugin_prototype
        split: option.splits sum.splits)

text \<open>
  A dependency on a name that is nowhere: the first key of \<^verbatim>\<open>decoratePlugin\<close> has
  no metadata entry and is not a member of \<^verbatim>\<open>Object.prototype\<close>. The callback logs
  the dependency error and returns no plugin.
\<close>

lemma register_exports_no_routes:
  "p_getRouteProps plugin = None \<Longrightarrow> fst (register_exports name ver plugin rt) = None"
  by (simp add: register_exports_def register_getRouteProps_def Let_def)

lemma load_plugin_missing_dependency:
  assumes "p_decoratePlugin plugin = Some ((key, d) # rest)"
    and "\<not> internal_key key" and "\<not> proto_member key"
    and "metadata rt key = None" and "key \<noteq> pluginName"
    and "metadata_proto rt = None" and "pluginName \<noteq> ''__proto__''"
    and "p_getRouteProps plugin = None"
  shows "fst (load_plugin pluginName plugin rt) = Inr None"
    and "snd (snd (load_plugin pluginName plugin rt)) =
           (case p_metadata plugin of None \<Rightarrow> [metadata_message pluginName] | Some md \<Rightarrow> [])
           @ [dependency_message key (export_name plugin)]"
  using assms
  by (auto simp: load_plugin_def load_metadata_cases Let_def split_beta known_plugin_def
        register_exports_no_routes split: option.splits sum.splits)

section \<open>Claims about connect\<close>

text \<open>
  Claim C1 says that a state mapper that throws never makes the derived state function
  throw. The handler of line 243 reads \<^verbatim>\<open>err.stack\<close> of whatever was thrown, and for a
  mapper that does \<^verbatim>\<open>throw null\<close> or \<^verbatim>\<open>throw undefined\<close> that read throws a
  \<^verbatim>\<open>TypeError\<close> inside the handler: wherever such a mapper stands among the mappers
  of the mount point, and whatever the accumulator handed to it, the derived state
  function throws that \<^verbatim>\<open>TypeError\<close> to its caller, the mappers after it do not run,
  and nothing is logged for the step.
\<close>

theorem null_throw_escapes_connect_state:
  assumes "connectors rt = Some cs" and "cs name = Some c"
    and "state c = pre @ mapper # post"
    and "stateFn st = Inr init"
    and "mapper_reduce name st pre init = (Inr acc, lg)"
    and "fn mapper st acc = Inl (Thrown v)"
    and "v = Null \<or> v = Undefined"
  shows "connect_state rt stateFn name st =
           (Inl (TypeError (''Cannot read property stack of ''
                              @ (if v = Null then ''null'' else ''undefined''))), lg)"
proof -
  have "stack (Thrown v) =
          Inl (TypeError (''Cannot read property stack of ''
                            @ (if v = Null then ''null'' else ''undefined'')))"
    using assms(7) by auto
  with assms(6) have "mapper_step name st acc mapper =
      (Inl (TypeError (''Cannot read property stack of ''
                         @ (if v = Null then ''null'' else ''undefined''))), [])"
    by (simp add: mapper_step_def try_mapper_escape)
  moreover have "mapper_reduce name st (pre @ mapper # post) init =
          (case mapper_reduce name st (mapper # post) acc of (r, lg') \<Rightarrow> (r, lg @ lg'))"
    using assms(5) by (rule mapper_reduce_append)
  ultimately show ?thesis
    using assms(1-4) by (simp add: connect_state_def)
qed

theorem null_throw_escapes_connect_state_witness:
  "mapper_reduce ''App'' (Str ''s'') [demo_tag (merge_mapper ''seen'')] (Obj [])
     = (Inr (Obj [(''seen'', Str ''s'')]), [])
   \<and> connect_state null_runtime empty_stateFn ''App'' (Str ''s'')
     = (Inl (TypeError ''Cannot read property stack of null''), [])"
proof -
  let ?c = "\<lparr>state = [demo_tag (merge_mapper ''seen''), demo_tag null_throwing_mapper,
                      demo_tag (merge_mapper ''later'')], dispatch = []\<rparr>"
  have h1: "connectors null_runtime = Some [''App'' \<mapsto> ?c]"
    by (simp add: null_runtime_def module_init_def)
  have h2: "[''App'' \<mapsto> ?c] ''App'' = Some ?c" by simp
  have h3: "state ?c = [demo_tag (merge_mapper ''seen'')] @ demo_tag null_throwing_mapper
                         # [demo_tag (merge_mapper ''later'')]"
    by simp
  have h4: "empty_stateFn (Str ''s'') = Inr (Obj [])" by (simp add: empty_stateFn_def)
  have h5: "mapper_reduce ''App'' (Str ''s'') [demo_tag (merge_mapper ''seen'')] (Obj [])
      = (Inr (Obj [(''seen'', Str ''s'')]), [])"
    by (simp add: mapper_step_def try_mapper_def demo_tag_def merge_mapper_def)
  have h6: "fn (demo_tag null_throwing_mapper) (Str ''s'') (Obj [(''seen'', Str ''s'')])
              = Inl (Thrown Null)"
    by (simp add: demo_tag_def null_throwing_mapper_def)
  have h7: "Null = Null \<or> Null = Undefined" by simp
  from null_throw_escapes_connect_state[where rt = null_runtime and cs = "[''App'' \<mapsto> ?c]"
      and name = "''App''" and c = ?c and pre = "[demo_tag (merge_mapper ''seen'')]"
      and mapper = "demo_tag null_throwing_mapper"
      and post = "[demo_tag (merge_mapper ''later'')]"
      and stateFn = empty_stateFn and st = "Str ''s''" and init = "Obj []"
      and acc = "Obj [(''seen'', Str ''s'')]" and lg = "[]" and v = Null,
      OF h1 h2 h3 h4 h5 h6 h7]
  show ?thesis using h5 by simp
qed

text \<open>
  Claim C2, as the code has it. In both folds of \<^verbatim>\<open>connect\<close> a mapper that returns
  a value that is not an object logs the attributed invalid-return error and the step
  yields \<^verbatim>\<open>undefined\<close>, which the next mapper receives. A mapper that throws a value
  whose \<^verbatim>\<open>stack\<close> can be read (any value but \<^verbatim>\<open>null\<close> and \<^verbatim>\<open>undefined\<close>) logs
  the attributed error with that stack; the step then yields \<^verbatim>\<open>undefined\<close> (and logs
  the invalid-return error too) only when the accumulator it was given is not an object,
  and yields that accumulator unchanged when it is one.
\<close>

theorem mapper_step_failure:
  "(fn mapper x acc = Inr r \<and> \<not> (truthy r \<and> typeof r = ''object'') \<longrightarrow>
      mapper_step name x acc mapper = (Inr Undefined, [invalid_message name mapper])
      \<and> fst (mapper_reduce name x (mapper # rest) acc)
          = fst (mapper_reduce name x rest Undefined))
   \<and> (fn mapper x acc = Inl err \<and> stack err = Inr s
        \<and> \<not> (truthy acc \<and> typeof acc = ''object'') \<longrightarrow>
      mapper_step name x acc mapper =
        (Inr Undefined, [thrown_message name mapper s, invalid_message name mapper])
      \<and> fst (mapper_reduce name x (mapper # rest) acc)
          = fst (mapper_reduce name x rest Undefined))
   \<and> (fn mapper x acc = Inl err \<and> stack err = Inr s
        \<and> truthy acc \<and> typeof acc = ''object'' \<longrightarrow>
      mapper_step name x acc mapper = (Inr acc, [thrown_message name mapper s])
      \<and> fst (mapper_reduce name x (mapper # rest) acc)
          = fst (mapper_reduce name x rest acc))"
  by (auto simp: mapper_step_def try_mapper_def split_beta)

theorem mapper_step_failure_witness:
  "mapper_step ''App'' (Obj []) (Obj []) (demo_tag string_mapper)
     = (Inr Undefined, [invalid_message ''App'' (demo_tag string_mapper)])
   \<and> mapper_step ''App'' (Obj []) Undefined (demo_tag throwing_mapper)
     = (Inr Undefined,
        [thrown_message ''App'' (demo_tag throwing_mapper) (Str ''Error: boom''),
         invalid_message ''App'' (demo_tag throwing_mapper)])
   \<and> mapper_step ''App'' (Obj []) (Obj [(''a'', Null)]) (demo_tag throwing_mapper)
     = (Inr (Obj [(''a'', Null)]),
        [thrown_message ''App'' (demo_tag throwing_mapper) (Str ''Error: boom'')])"
  using mapper_step_failure[where mapper = "demo_tag string_mapper" and x = "Obj []"
      and acc = "Obj []" and r = "Str ''plain''" and name = "''App''" and rest = "[]"]
    mapper_step_failure[where mapper = "demo_tag throwing_mapper" and x = "Obj []"
      and acc = Undefined and err = "Thrown (error_object ''boom'')"
      and s = "Str ''Error: boom''" and name = "''App''" and rest = "[]"]
    mapper_step_failure[where mapper = "demo_tag throwing_mapper" and x = "Obj []"
      and acc = "Obj [(''a'', Null)]" and err = "Thrown (error_object ''boom'')"
      and s = "Str ''Error: boom''" and name = "''App''" and rest = "[]"]
  by (simp add: demo_tag_def string_mapper_def throwing_mapper_def error_object_def)

text \<open>
  Against claim C2 as stated: this mapper throws an \<^verbatim>\<open>Error\<close>, the accumulator is an
  object, and the step yields the accumulator, not \<^verbatim>\<open>undefined\<close>.
\<close>

theorem throwing_mapper_keeps_accumulator:
  "fn (demo_tag throwing_mapper) (Obj []) (Obj [(''a'', Null)])
     = Inl (Thrown (error_object ''boom''))
   \<and> mapper_step ''App'' (Obj []) (Obj [(''a'', Null)]) (demo_tag throwing_mapper)
     = (Inr (Obj [(''a'', Null)]),
        [thrown_message ''App'' (demo_tag throwing_mapper) (Str ''Error: boom'')])
   \<and> fst (mapper_step ''App'' (Obj []) (Obj [(''a'', Null)]) (demo_tag throwing_mapper))
       \<noteq> Inr Undefined"
  by (simp add: mapper_step_def try_mapper_def demo_tag_def throwing_mapper_def error_object_def)

section \<open>Claims about loadPlugins\<close>

text \<open>
  Claim C3 says that a plugin whose \<^verbatim>\<open>decoratePlugin\<close> names a plugin without metadata
  entry is dropped with a logged dependency error, and that nothing is thrown. The test
  of line 155 is \<^verbatim>\<open>!metadata[key]\<close> on a plain object, so for a key that names a member
  of \<^verbatim>\<open>Object.prototype\<close> (\<^verbatim>\<open>toString\<close>, \<^verbatim>\<open>constructor\<close>, ...) it finds the
  inherited function and takes the dependency for loaded, although \<^verbatim>\<open>metadata\<close> has no
  entry of that name; line 165 then finds the inherited function in \<^verbatim>\<open>pluginDecorators\<close>
  as well, creates no array, and \<^verbatim>\<open>.push\<close> of line 166 throws. For every such plugin
  at the head of the configuration, whatever follows it: \<^verbatim>\<open>loadPlugins\<close> throws, the log
  holds no dependency error (only the metadata error, if the plugin has no metadata),
  \<^verbatim>\<open>plugins\<close> is not assigned, and \<^verbatim>\<open>metadata\<close> still has no entry for the key.
\<close>

theorem prototype_named_dependency_throws:
  assumes "req pluginName = Some plugin"
    and "p_decoratePlugin plugin = Some ((key, d) # rest)"
    and "\<not> internal_key key" and "proto_member key"
    and "metadata rt key = None" and "key \<noteq> pluginName"
    and "pluginDecorators rt key = None"
  shows "(\<exists>e. fst (loadPlugins (pluginName # others) req rt) = Inl e)
       \<and> snd (snd (loadPlugins (pluginName # others) req rt)) =
           (case p_metadata plugin of None \<Rightarrow> [metadata_message pluginName] | Some md \<Rightarrow> [])
       \<and> plugins (fst (snd (loadPlugins (pluginName # others) req rt))) = plugins rt
       \<and> metadata (fst (snd (loadPlugins (pluginName # others) req rt))) key = None"
proof -
  let ?rt0 = "reset_registries rt"
  have pd: "pluginDecorators ?rt0 key = None"
    using assms(7) by (simp add: reset_registries_def)
  from load_plugin_prototype_dependency(1)[OF assms(2,3,4) pd, of pluginName]
  obtain e where e: "fst (load_plugin pluginName plugin ?rt0) = Inl e" by blast
  have lg: "snd (snd (load_plugin pluginName plugin ?rt0)) =
           (case p_metadata plugin of None \<Rightarrow> [metadata_message pluginName] | Some md \<Rightarrow> [])"
    using assms(2,3,4) pd by (rule load_plugin_prototype_dependency(2))
  have m: "map_plugins req (pluginName # others) ?rt0
             = (Inl e, snd (load_plugin pluginName plugin ?rt0))"
    using assms(1) e by (cases "load_plugin pluginName plugin ?rt0") auto
  have l: "loadPlugins (pluginName # others) req rt
             = (Inl e, snd (load_plugin pluginName plugin ?rt0))"
    unfolding loadPlugins_def m
    by (cases "snd (load_plugin pluginName plugin ?rt0)") simp
  have "plugins (fst (snd (load_plugin pluginName plugin ?rt0))) = plugins rt"
    by (simp add: load_plugin_retains reset_registries_def)
  moreover have "metadata (fst (snd (load_plugin pluginName plugin ?rt0))) key = None"
    using assms(5,6) by (simp add: load_plugin_retains reset_registries_def)
  ultimately show ?thesis using lg by (simp add: l)
qed

theorem prototype_named_dependency_throws_witness:
  "fst (loadPlugins [''stringer'', ''parent''] faulty_require module_init)
     = Inl (TypeError ''pluginDecorators[key].push is not a function'')
   \<and> snd (snd (loadPlugins [''stringer'', ''parent''] faulty_require module_init)) = []
   \<and> plugins (fst (snd (loadPlugins [''stringer'', ''parent''] faulty_require module_init)))
       = None
   \<and> metadata (fst (snd (loadPlugins [''stringer'', ''parent''] faulty_require module_init)))
       ''toString'' = None"
proof -
  have h1: "faulty_require ''stringer'' = Some stringer_plugin"
    by (simp add: faulty_require_def)
  have h2: "p_decoratePlugin stringer_plugin = Some ((''toString'', Fun ''decorateToString'') # [])"
    by (simp add: stringer_plugin_def empty_plugin_def)
  have h3: "\<not> internal_key ''toString''" by (simp add: internal_key_def)
  have h4: "proto_member ''toString''" by (simp add: proto_member_def proto_functions_def)
  have h5: "metadata (module_init :: string list runtime) ''toString'' = None"
    by (simp add: module_init_def)
  have h6: "''toString'' \<noteq> ''stringer''" by simp
  have h7: "pluginDecorators (module_init :: string list runtime) ''toString'' = None"
    by (simp add: module_init_def)
  have e: "fst (loadPlugins [''stringer'', ''parent''] faulty_require module_init)
     = Inl (TypeError ''pluginDecorators[key].push is not a function'')"
    by (simp add: load_simps faulty_require_def stringer_plugin_def)
  from prototype_named_dependency_throws[where req = faulty_require
      and pluginName = "''stringer''" and plugin = stringer_plugin and key = "''toString''"
      and d = "Fun ''decorateToString''" and rest = "[]" and rt = module_init
      and others = "[''parent'']", OF h1 h2 h3 h4 h5 h6 h7]
  show ?thesis using e
    by (simp add: stringer_plugin_def empty_plugin_def module_init_def)
qed

text \<open>
  Claim C4 does not hold of the code. The dependency check of lines 150-168 comes after
  the registrations of lines 93-147, and the \<^verbatim>\<open>return\<close> of line 162 undoes none of
  them. Loading the single plugin \<open>child_plugin\<close>, whose dependency is missing, logs the
  dependency error and leaves the plugin list empty, yet its middleware, its four
  mappers, its route and panel prop decorators, its two reducer decorators and its
  constants transform are all in the registries afterwards.
\<close>

theorem dropped_plugin_stays_registered:
  "(case loadPlugins [''child''] demo_require module_init of
      (r, rt, lg) \<Rightarrow>
        r = Inr () \<and> plugins rt = Some []
      \<and> lg = [dependency_message ''ghost'' (Some ''child'')]
      \<and> map_option (map tag_pluginName) (middlewares rt) = Some [Some ''child'']
      \<and> map_option (\<lambda>cs. map_option (\<lambda>c. (map tag_pluginName (state c),
                                            map tag_pluginName (dispatch c))) (cs ''App''))
           (connectors rt) = Some (Some ([Some ''child''], [Some ''child'']))
      \<and> map_option (\<lambda>cs. map_option (\<lambda>c. (map tag_pluginName (state c),
                                            map tag_pluginName (dispatch c))) (cs ''Panel''))
           (connectors rt) = Some (Some ([Some ''child''], [Some ''child'']))
      \<and> map_option (\<lambda>rpd. map_option length (rpd ''home'')) (routePropsDecorators rt)
          = Some (Some 1)
      \<and> map_option (map tag_pluginName) (propsDecorators rt ''getPanelProps'')
          = Some [Some ''child'']
      \<and> map_option (map tag_pluginName) (reducersDecorators rt ''chainReducer'')
          = Some [Some ''child'']
      \<and> map_option (map tag_pluginName) (reducersDecorators rt ''nodeReducer'')
          = Some [Some ''child'']
      \<and> map_option (map tag_pluginName) (extendConstants rt ''sockets'')
          = Some [Some ''child''])"
  by (simp add: load_simps)

text \<open>
  Claim C5, as the code has it. Every call of \<^verbatim>\<open>loadPlugins\<close> creates the connectors
  of App and Panel, \<^verbatim>\<open>extendConstants\<close>, the panel and route prop decorator registries,
  the chain and node reducer decorator registries and the middleware list afresh: what
  they held before the call has no effect on the call; after a load that returns they
  hold the exports of the plugins of this configuration, in its order, and nothing else;
  and after a load of no plugin they are empty. The decorated component cache, the
  metadata map and also the plugin decorator registry are not reset: after any load,
  also one that throws, the cache is as before, every metadata entry is still there
  (unchanged for a name that is not in the configuration), and every list of plugin
  decorators has only grown at its end.
\<close>

theorem loadPlugins_reset_and_retained:
  "loadPlugins localPlugins req
       (rt\<lparr>connectors := c, extendConstants := ec, propsDecorators := pd,
           routePropsDecorators := rpd, reducersDecorators := rd, middlewares := ms\<rparr>)
     = loadPlugins localPlugins req rt
   \<and> (loadPlugins localPlugins req rt = (Inr (), rt', lg) \<longrightarrow>
        configured_registries req localPlugins rt')
   \<and> (case loadPlugins [] req rt of
        (r, rt0, lg0) \<Rightarrow>
          r = Inr ()
        \<and> connectors rt0 = Some [''App'' \<mapsto> \<lparr>state = [], dispatch = []\<rparr>,
                                  ''Panel'' \<mapsto> \<lparr>state = [], dispatch = []\<rparr>]
        \<and> extendConstants rt0 = [''sockets'' \<mapsto> []]
        \<and> propsDecorators rt0 = [''getPanelProps'' \<mapsto> []]
        \<and> routePropsDecorators rt0 = Some Map.empty
        \<and> reducersDecorators rt0 = [''chainReducer'' \<mapsto> [], ''nodeReducer'' \<mapsto> []]
        \<and> middlewares rt0 = Some [])
   \<and> decorated (fst (snd (loadPlugins localPlugins req rt))) = decorated rt
   \<and> (\<forall>k. k \<notin> set localPlugins \<longrightarrow>
          metadata (fst (snd (loadPlugins localPlugins req rt))) k = metadata rt k)
   \<and> (\<forall>k. metadata rt k \<noteq> None \<longrightarrow>
          metadata (fst (snd (loadPlugins localPlugins req rt))) k \<noteq> None)
   \<and> (\<forall>k ds. pluginDecorators rt k = Some ds \<longrightarrow>
        (\<exists>ds'. pluginDecorators (fst (snd (loadPlugins localPlugins req rt))) k
                 = Some (ds @ ds')))"
proof -
  have indep: "loadPlugins localPlugins req
       (rt\<lparr>connectors := c, extendConstants := ec, propsDecorators := pd,
           routePropsDecorators := rpd, reducersDecorators := rd, middlewares := ms\<rparr>)
     = loadPlugins localPlugins req rt"
    by (simp only: loadPlugins_def reset_registries_independent)
  have conf: "loadPlugins localPlugins req rt = (Inr (), rt', lg) \<longrightarrow>
        configured_registries req localPlugins rt'"
    using loadPlugins_configured by blast
  have empty: "(case loadPlugins [] req rt of
        (r, rt0, lg0) \<Rightarrow>
          r = Inr ()
        \<and> connectors rt0 = Some [''App'' \<mapsto> \<lparr>state = [], dispatch = []\<rparr>,
                                  ''Panel'' \<mapsto> \<lparr>state = [], dispatch = []\<rparr>]
        \<and> extendConstants rt0 = [''sockets'' \<mapsto> []]
        \<and> propsDecorators rt0 = [''getPanelProps'' \<mapsto> []]
        \<and> routePropsDecorators rt0 = Some Map.empty
        \<and> reducersDecorators rt0 = [''chainReducer'' \<mapsto> [], ''nodeReducer'' \<mapsto> []]
        \<and> middlewares rt0 = Some [])"
    by (simp add: loadPlugins_def reset_registries_def)
  show ?thesis
    using indep conf empty loadPlugins_retains[of localPlugins req rt] by blast
qed

theorem loadPlugins_reset_and_retained_witness:
  "configured_registries demo_require [''parent'', ''kid'']
     (fst (snd (loadPlugins [''parent'', ''kid''] demo_require
        (fst (snd (loadPlugins [''parent'', ''kid''] demo_require module_init))))))
   \<and> map_option (map tag_pluginName)
       (middlewares (fst (snd (loadPlugins [''parent'', ''kid''] demo_require
          (fst (snd (loadPlugins [''parent'', ''kid''] demo_require module_init)))))))
       = Some [Some ''parent'', Some ''kid'']
   \<and> metadata (fst (snd (loadPlugins [] demo_require
        (fst (snd (loadPlugins [''parent'', ''kid''] demo_require module_init)))))) ''parent''
       = Some \<lparr>md_name = Some ''parent'', md_pluginVersion = Some ''1.0.0''\<rparr>
   \<and> (\<exists>ds'. pluginDecorators (fst (snd (loadPlugins [''parent'', ''kid''] demo_require
        (fst (snd (loadPlugins [''parent'', ''kid''] demo_require module_init)))))) ''parent''
          = Some ([Fun ''kidDecorator''] @ ds'))"
proof -
  let ?cfg = "[''parent'', ''kid'']"
  let ?rt = "fst (snd (loadPlugins ?cfg demo_require module_init))"
  let ?rt' = "fst (snd (loadPlugins ?cfg demo_require ?rt))"
  have h1: "metadata ?rt ''parent'' = Some \<lparr>md_name = Some ''parent'', md_pluginVersion = Some ''1.0.0''\<rparr>"
    by (simp add: load_simps)
  have h2: "pluginDecorators ?rt ''parent'' = Some [Fun ''kidDecorator'']"
    by (simp add: load_simps)
  have "fst (loadPlugins ?cfg demo_require ?rt) = Inr ()"
    by (simp add: load_simps)
  then have h3: "loadPlugins ?cfg demo_require ?rt
      = (Inr (), ?rt', snd (snd (loadPlugins ?cfg demo_require ?rt)))"
    by (metis prod.collapse)
  have h4: "''parent'' \<notin> set ([] :: string list)" by simp
  have m: "exports_in_load_order p_middleware demo_require ?cfg
     = [tagged_export (Some ''parent'') (Some ''1.0.0'') (trace_middleware ''parent''),
        tagged_export (Some ''kid'') (Some ''2.0.0'') (trace_middleware ''kid'')]"
    by (simp add: exports_in_load_order_def plugin_export_def demo_require_def parent_plugin_def
          kid_plugin_def empty_plugin_def export_name_def export_version_def)
  from loadPlugins_reset_and_retained[where rt = ?rt and localPlugins = ?cfg
      and req = demo_require and rt' = ?rt'
      and lg = "snd (snd (loadPlugins ?cfg demo_require ?rt))"]
  have a: "configured_registries demo_require ?cfg ?rt'"
    and b: "\<forall>k ds. pluginDecorators ?rt k = Some ds \<longrightarrow>
        (\<exists>ds'. pluginDecorators ?rt' k = Some (ds @ ds'))"
    using h3 by blast+
  from loadPlugins_reset_and_retained[where rt = ?rt and localPlugins = "[]"
      and req = demo_require]
  have c: "\<forall>k. k \<notin> set ([] :: string list) \<longrightarrow>
          metadata (fst (snd (loadPlugins [] demo_require ?rt))) k = metadata ?rt k"
    by blast
  from a have "middlewares ?rt' = Some (exports_in_load_order p_middleware demo_require ?cfg)"
    by (simp add: configured_registries_def)
  then have d: "map_option (map tag_pluginName) (middlewares ?rt')
       = Some [Some ''parent'', Some ''kid'']"
    by (simp add: m tagged_export_def)
  from c h1 h4 have e: "metadata (fst (snd (loadPlugins [] demo_require ?rt))) ''parent''
       = Some \<lparr>md_name = Some ''parent'', md_pluginVersion = Some ''1.0.0''\<rparr>"
    by simp
  from a d e b h2 show ?thesis by blast
qed

text \<open>
  Against claim C5 as stated: after a load in which \<open>kid_plugin\<close> decorates
  \<open>parent_plugin\<close>, the reset at the start of the next load leaves the plugin decorator
  registry as it is, and the second load of the same configuration registers the
  decorator a second time.
\<close>

theorem pluginDecorators_survive_reset:
  "pluginDecorators
     (reset_registries (fst (snd (loadPlugins [''parent'', ''kid''] demo_require module_init))))
     ''parent'' = Some [Fun ''kidDecorator'']
   \<and> pluginDecorators
     (fst (snd (loadPlugins [''parent'', ''kid''] demo_require
        (fst (snd (loadPlugins [''parent'', ''kid''] demo_require module_init))))))
     ''parent'' = Some [Fun ''kidDecorator'', Fun ''kidDecorator'']"
  by (simp add: load_simps)

section \<open>Claims about the registries in use\<close>

text \<open>
  Claim C6. With no chain-reducer decorator registered, the reducer that
  \<^verbatim>\<open>decorateReducer(baseReducer, "chainReducer")\<close> returns yields the value of
  \<^verbatim>\<open>baseReducer(state, action)\<close> wrapped by \<^verbatim>\<open>Immutable\<close> (and throws what the base
  reducer throws). With one registered decorator that sets key \<open>k\<close> to \<open>v\<close>, the result
  has \<open>v\<close> at \<open>k\<close>, whatever the base reducer returned.
\<close>

theorem decorateReducer_chainReducer:
  "(reducersDecorators rt ''chainReducer'' = Some [] \<longrightarrow>
      decorateReducer Immutable rt reducer ''chainReducer'' st action =
        (case reducer st action of Inl e \<Rightarrow> Inl e | Inr s \<Rightarrow> Inr (Immutable s)))
   \<and> (reducersDecorators rt ''chainReducer'' = Some [dec]
        \<and> (\<forall>s. \<exists>r. fn dec s action = Inr r \<and> js_prop r k = v)
        \<and> reducer st action = Inr b \<longrightarrow>
      (\<exists>r. decorateReducer Immutable rt reducer ''chainReducer'' st action = Inr r
            \<and> js_prop r k = v))"
proof (intro conjI impI)
  assume "reducersDecorators rt ''chainReducer'' = Some []"
  then show "decorateReducer Immutable rt reducer ''chainReducer'' st action =
        (case reducer st action of Inl e \<Rightarrow> Inl e | Inr s \<Rightarrow> Inr (Immutable s))"
    by (simp add: decorateReducer_def split: sum.splits)
next
  assume a: "reducersDecorators rt ''chainReducer'' = Some [dec]
        \<and> (\<forall>s. \<exists>r. fn dec s action = Inr r \<and> js_prop r k = v)
        \<and> reducer st action = Inr b"
  then obtain r where "fn dec (Immutable b) action = Inr r" "js_prop r k = v" by blast
  then show "\<exists>r. decorateReducer Immutable rt reducer ''chainReducer'' st action = Inr r
            \<and> js_prop r k = v"
    using a by (simp add: decorateReducer_def)
qed

lemma js_prop_set_key: "\<exists>r. set_key k v s a = Inr r \<and> js_prop r k = v"
  by (cases s) (simp_all add: set_key_def)

theorem decorateReducer_chainReducer_witness:
  "decorateReducer (\<lambda>s. s) (fst (snd (loadPlugins [''parent''] demo_require module_init)))
       base_reducer ''chainReducer'' Undefined (Str ''TIP'')
     = Inr (Obj [(''height'', Str ''base''), (''tip'', Str ''TIP'')])
   \<and> (\<exists>r. decorateReducer (\<lambda>s. s)
              (fst (snd (loadPlugins [''setter''] demo_require module_init)))
              base_reducer ''chainReducer'' Undefined (Str ''TIP'') = Inr r
          \<and> js_prop r ''height'' = Str ''decorated'')"
proof -
  let ?rt0 = "fst (snd (loadPlugins [''parent''] demo_require module_init))"
  let ?rt1 = "fst (snd (loadPlugins [''setter''] demo_require module_init))"
  let ?dec = "tagged_export (Some ''setter'') (Some ''3.0.0'')
                (set_key ''height'' (Str ''decorated''))"
  have h0: "reducersDecorators ?rt0 ''chainReducer'' = Some []" by (simp add: load_simps)
  have h1: "reducersDecorators ?rt1 ''chainReducer'' = Some [?dec]"
    by (simp add: load_simps)
  have h2: "\<forall>s. \<exists>r. fn ?dec s (Str ''TIP'') = Inr r \<and> js_prop r ''height'' = Str ''decorated''"
    using js_prop_set_key by (simp add: tagged_export_def)
  have h3: "base_reducer Undefined (Str ''TIP'')
              = Inr (Obj [(''height'', Str ''base''), (''tip'', Str ''TIP'')])"
    by (simp add: base_reducer_def)
  show ?thesis
    using decorateReducer_chainReducer[where rt = ?rt0 and Immutable = "\<lambda>s. s"
          and reducer = base_reducer and st = Undefined and action = "Str ''TIP''"]
      decorateReducer_chainReducer[where rt = ?rt1 and dec = ?dec and action = "Str ''TIP''"
          and k = "''height''" and v = "Str ''decorated''" and reducer = base_reducer
          and st = Undefined and b = "Obj [(''height'', Str ''base''), (''tip'', Str ''TIP'')]"
          and Immutable = "\<lambda>s. s"]
      h0 h1 h2 h3
    by simp
qed

text \<open>
  Claim C7. With no registered transform \<^verbatim>\<open>getConstants("sockets")\<close> returns the base
  sockets namespace. With exactly one registered transform that appends an entry to
  \<^verbatim>\<open>listeners\<close>, the \<^verbatim>\<open>listeners\<close> of the result are the default entry
  \<^verbatim>\<open>{event: "new block", actionType: SET_CHAIN_TIP}\<close> followed by the appended entry.
\<close>

theorem getConstants_sockets:
  "(extendConstants rt ''sockets'' = Some [] \<longrightarrow>
      getConstants ns rt ''sockets'' = Inr (sockets (ns_chain ns)))
   \<and> (extendConstants rt ''sockets'' = Some [t]
        \<and> (\<forall>b ls. js_prop b ''listeners'' = Arr ls \<longrightarrow>
              (\<exists>r. fn t b = Inr r \<and> js_prop r ''listeners'' = Arr (ls @ [entry]))) \<longrightarrow>
      (\<exists>r. getConstants ns rt ''sockets'' = Inr r
            \<and> js_prop r ''listeners'' =
                Arr [Obj [(''event'', Str ''new block''),
                          (''actionType'', js_prop (ns_chain ns) ''SET_CHAIN_TIP'')],
                     entry]))"
proof (intro conjI impI)
  assume "extendConstants rt ''sockets'' = Some []"
  then show "getConstants ns rt ''sockets'' = Inr (sockets (ns_chain ns))"
    by (simp add: getConstants_def constants_def)
next
  assume a: "extendConstants rt ''sockets'' = Some [t]
        \<and> (\<forall>b ls. js_prop b ''listeners'' = Arr ls \<longrightarrow>
              (\<exists>r. fn t b = Inr r \<and> js_prop r ''listeners'' = Arr (ls @ [entry])))"
  have "js_prop (sockets (ns_chain ns)) ''listeners'' =
          Arr [Obj [(''event'', Str ''new block''),
                    (''actionType'', js_prop (ns_chain ns) ''SET_CHAIN_TIP'')]]"
    by (simp add: sockets_def listeners_def)
  with a obtain r where "fn t (sockets (ns_chain ns)) = Inr r"
    "js_prop r ''listeners'' = Arr ([Obj [(''event'', Str ''new block''),
                    (''actionType'', js_prop (ns_chain ns) ''SET_CHAIN_TIP'')]] @ [entry])"
    by blast
  then show "\<exists>r. getConstants ns rt ''sockets'' = Inr r
            \<and> js_prop r ''listeners'' =
                Arr [Obj [(''event'', Str ''new block''),
                          (''actionType'', js_prop (ns_chain ns) ''SET_CHAIN_TIP'')],
                     entry]"
    using a by (simp add: getConstants_def constants_def)
qed

lemma map_of_replace:
  "map_of kvs k = Some old \<Longrightarrow>
   map_of (map (\<lambda>kv. if fst kv = k then (fst kv, new) else kv) kvs) k = Some new"
  by (induction kvs) (auto split: if_splits)

lemma append_listener_appends:
  "js_prop b ''listeners'' = Arr ls \<Longrightarrow>
   \<exists>r. append_listener entry b = Inr r \<and> js_prop r ''listeners'' = Arr (ls @ [entry])"
proof (cases b)
  case (Obj kvs)
  assume "js_prop b ''listeners'' = Arr ls"
  with Obj have m: "map_of kvs ''listeners'' = Some (Arr ls)"
    by (auto split: option.splits)
  from map_of_replace[OF m, of "Arr (ls @ [entry])"] m Obj
  show ?thesis by (simp add: append_listener_def)
qed simp_all

theorem getConstants_sockets_witness:
  "getConstants demo_namespaces (fst (snd (loadPlugins [''parent''] demo_require module_init)))
       ''sockets''
     = Inr (sockets (Obj [(''SET_CHAIN_TIP'', Str ''SET_CHAIN_TIP'')]))
   \<and> (\<exists>r. getConstants demo_namespaces
              (fst (snd (loadPlugins [''setter''] demo_require module_init))) ''sockets'' = Inr r
         \<and> js_prop r ''listeners'' =
             Arr [Obj [(''event'', Str ''new block''), (''actionType'', Str ''SET_CHAIN_TIP'')],
                  Obj [(''event'', Str ''x''), (''actionType'', Str ''Y'')]])"
proof -
  let ?rt0 = "fst (snd (loadPlugins [''parent''] demo_require module_init))"
  let ?rt1 = "fst (snd (loadPlugins [''setter''] demo_require module_init))"
  let ?e = "Obj [(''event'', Str ''x''), (''actionType'', Str ''Y'')]"
  let ?t = "tagged_export (Some ''setter'') (Some ''3.0.0'') (append_listener ?e)"
  have h0: "extendConstants ?rt0 ''sockets'' = Some []" by (simp add: load_simps)
  have h1: "extendConstants ?rt1 ''sockets'' = Some [?t]" by (simp add: load_simps)
  have h2: "\<forall>b ls. js_prop b ''listeners'' = Arr ls \<longrightarrow>
              (\<exists>r. fn ?t b = Inr r \<and> js_prop r ''listeners'' = Arr (ls @ [?e]))"
    using append_listener_appends by (simp add: tagged_export_def)
  show ?thesis
    using getConstants_sockets[where rt = ?rt0 and ns = demo_namespaces]
      getConstants_sockets[where rt = ?rt1 and ns = demo_namespaces and t = ?t and entry = ?e]
      h0 h1 h2
    by (simp add: demo_namespaces_def)
qed

text \<open>
  Claim C8 says that \<^verbatim>\<open>getRouteProps\<close> returns the parent props for every route name
  that no plugin has registered a prop decorator for. The test of line 209 is
  \<^verbatim>\<open>!routePropsDecorators[name]\<close> on a plain object: for a route name that names a
  member of \<^verbatim>\<open>Object.prototype\<close> (\<^verbatim>\<open>toString\<close>, \<^verbatim>\<open>constructor\<close>, ...) it
  finds the inherited function, does not take the short cut, and \<^verbatim>\<open>.reduce\<close> of line
  211 is not a function. After any load, for every such name without registered
  decorator, and whatever the parent props, the props, the extra arguments and the
  reducer callback are, the call throws a \<^verbatim>\<open>TypeError\<close> instead of returning the
  parent props.
\<close>

theorem getRouteProps_prototype_name_throws:
  assumes "loadPlugins localPlugins req rt0 = (Inr (), rt, lg)"
    and "route_decorators_in_load_order req localPlugins name = []"
    and "proto_member name"
  shows "getRouteProps propsReducerCallback rt name parentProps props fnArgs =
           Inl (TypeError ''routePropsDecorators[name].reduce is not a function'')"
proof -
  from loadPlugins_configured[OF assms(1)]
  have "routePropsDecorators rt = Some (configured_routes req localPlugins)"
    by (simp add: configured_registries_def)
  moreover have "configured_routes req localPlugins name = None"
    using assms(2) by (simp add: configured_routes_def)
  ultimately show ?thesis using assms(3) by (simp add: getRouteProps_def)
qed

theorem getRouteProps_prototype_name_throws_witness:
  "getRouteProps calling_callback
     (fst (snd (loadPlugins [''parent'', ''child''] demo_require module_init)))
     ''toString'' (Obj [(''theme'', Str ''dark'')]) None []
   = Inl (TypeError ''routePropsDecorators[name].reduce is not a function'')"
proof -
  have "fst (loadPlugins [''parent'', ''child''] demo_require module_init) = Inr ()"
    by (simp add: load_simps)
  then have h: "loadPlugins [''parent'', ''child''] demo_require module_init
     = (Inr (), fst (snd (loadPlugins [''parent'', ''child''] demo_require module_init)),
        snd (snd (loadPlugins [''parent'', ''child''] demo_require module_init)))"
    by (metis prod.collapse)
  have n: "route_decorators_in_load_order demo_require [''parent'', ''child''] ''toString'' = []"
    by (simp add: route_decorators_in_load_order_def plugin_route_decorators_def
          demo_require_def parent_plugin_def child_plugin_def empty_plugin_def)
  have p: "proto_member ''toString''" by (simp add: proto_member_def proto_functions_def)
  from getRouteProps_prototype_name_throws[OF h n p] show ?thesis .
qed

text \<open>
  For the other route names the claim holds: a name without registered decorator that
  \<^verbatim>\<open>Object.prototype\<close> does not have gets the parent props back, and no fold takes place.
\<close>

lemma getRouteProps_unregistered_route:
  assumes "loadPlugins localPlugins req rt0 = (Inr (), rt, lg)"
    and "route_decorators_in_load_order req localPlugins name = []"
    and "\<not> proto_member name"
  shows "getRouteProps propsReducerCallback rt name parentProps props fnArgs = Inr parentProps"
proof -
  from loadPlugins_configured[OF assms(1)]
  have "routePropsDecorators rt = Some (configured_routes req localPlugins)"
    by (simp add: configured_registries_def)
  moreover have "configured_routes req localPlugins name = None"
    using assms(2) by (simp add: configured_routes_def)
  ultimately show ?thesis using assms(3) by (simp add: getRouteProps_def)
qed

text \<open>
  Claim C10. After a load the middleware list holds the middleware of the configured
  plugins in the order of the configuration, and \<^verbatim>\<open>pluginMiddleware\<close> runs an action
  through the chain in which each middleware is given the rest of the chain as its
  \<^verbatim>\<open>next\<close>, the first-loaded one outermost and the store's \<^verbatim>\<open>next\<close> innermost.
\<close>

theorem pluginMiddleware_chain:
  assumes "loadPlugins localPlugins req rt0 = (Inr (), rt, lg)"
  shows "middlewares rt = Some (middlewares_in_load_order req localPlugins)
    \<and> nextMiddleware store next (middlewares_in_load_order req localPlugins)
        = foldr (\<lambda>m k. fn m store k) (middlewares_in_load_order req localPlugins) next
    \<and> pluginMiddleware rt store next action w =
        (case foldr (\<lambda>m k. fn m store k) (middlewares_in_load_order req localPlugins) next
                action w of
           (Inl e, w') \<Rightarrow> (Inl e, w')
         | (Inr v, w') \<Rightarrow> (Inr Undefined, w'))"
proof -
  from loadPlugins_configured[OF assms]
  have m: "middlewares rt = Some (middlewares_in_load_order req localPlugins)"
    by (simp add: configured_registries_def middlewares_in_load_order_exports)
  show ?thesis using m by (simp add: pluginMiddleware_def nextMiddleware_foldr)
qed

theorem pluginMiddleware_chain_witness:
  "map tag_pluginName (middlewares_in_load_order demo_require [''parent'', ''kid''])
       = [Some ''parent'', Some ''kid'']
   \<and> pluginMiddleware (fst (snd (loadPlugins [''parent'', ''kid''] demo_require module_init)))
       (Obj []) trace_next (Str ''PING'') [] = (Inr Undefined, [''parent'', ''kid'', ''next''])"
proof -
  have "fst (loadPlugins [''parent'', ''kid''] demo_require module_init) = Inr ()"
    by (simp add: load_simps)
  then have h: "loadPlugins [''parent'', ''kid''] demo_require module_init
     = (Inr (), fst (snd (loadPlugins [''parent'', ''kid''] demo_require module_init)),
        snd (snd (loadPlugins [''parent'', ''kid''] demo_require module_init)))"
    by (metis prod.collapse)
  have m: "middlewares_in_load_order demo_require [''parent'', ''kid'']
     = [tagged_export (Some ''parent'') (Some ''1.0.0'') (trace_middleware ''parent''),
        tagged_export (Some ''kid'') (Some ''2.0.0'') (trace_middleware ''kid'')]"
    by (simp add: middlewares_in_load_order_def demo_require_def parent_plugin_def
          kid_plugin_def empty_plugin_def export_name_def export_version_def)
  from pluginMiddleware_chain[OF h, of "Obj []" trace_next "Str ''PING''" "[]"]
  show ?thesis
    by (simp add: m tagged_export_def trace_middleware_def trace_next_def)
qed

section \<open>The footer\<close>

lemma digit_char_0: "digit_char 0 = CHR ''0''"
  by (simp add: digit_char_def)

lemma length_digits10_pos: "0 < length (digits10 n)"
  using digits10.simps[of n] by (cases "n < 10") simp_all

text \<open>With two fraction digits the point goes before the tens and units of \<open>n\<close>.\<close>

lemma digits10_point:
  "insert_point 2 (pad_zeros 2 (digits10 n)) =
     digits10 (n div 100) @ ''.'' @ [digit_char (n mod 100 div 10), digit_char (n mod 10)]"
proof -
  consider "n < 10" | "10 \<le> n" "n < 100" | "100 \<le> n" by linarith
  then show ?thesis
  proof cases
    case 1
    then have "digits10 n = [digit_char n]" using digits10.simps[of n] by simp
    moreover have "digits10 (n div 100) = [digit_char 0]"
      using 1 digits10.simps[of 0] by simp
    ultimately show ?thesis using 1
      by (simp add: insert_point_def pad_zeros_def digit_char_0 numeral_2_eq_2)
  next
    case 2
    then have lt: "n div 10 < 10" by linarith
    have "digits10 (n div 10) = [digit_char (n div 10)]"
      using lt digits10.simps[of "n div 10"] by simp
    with 2 have "digits10 n = [digit_char (n div 10), digit_char (n mod 10)]"
      using digits10.simps[of n] by simp
    moreover have "digits10 (n div 100) = [digit_char 0]"
      using 2 digits10.simps[of 0] by simp
    moreover have "n mod 100 div 10 = n div 10" using 2 by simp
    ultimately show ?thesis
      by (simp add: insert_point_def pad_zeros_def digit_char_0 numeral_2_eq_2)
  next
    case 3
    then have a: "digits10 n = digits10 (n div 10) @ [digit_char (n mod 10)]"
      using digits10.simps[of n] by simp
    have "\<not> n div 10 < 10" using 3 by linarith
    then have b: "digits10 (n div 10)
        = digits10 (n div 10 div 10) @ [digit_char (n div 10 mod 10)]"
      using digits10.simps[of "n div 10"] by simp
    have c: "n div 10 div 10 = n div 100" by (simp add: div_mult2_eq[symmetric])
    have "n mod 100 = 10 * (n div 10 mod 10) + n mod 10"
      using mod_mult2_eq[of n 10 10] by simp
    then have d: "n div 10 mod 10 = n mod 100 div 10" by simp
    have "digits10 n
        = digits10 (n div 100) @ [digit_char (n mod 100 div 10), digit_char (n mod 10)]"
      using a b c d by simp
    then show ?thesis using length_digits10_pos[of "n div 100"]
      by (simp add: insert_point_def pad_zeros_def)
  qed
qed

lemma dyadic_pos: "0 < snd (dyadic m e)"
  by (simp add: dyadic_def)

lemma dyadic_value: "of_int (fst (dyadic m e)) / of_int (snd (dyadic m e)) = dbl_value m e"
  by (simp add: dyadic_def dbl_value_def)

lemma dbl_value_abs: "dbl_value \<bar>m\<bar> e = \<bar>dbl_value m e\<bar>"
  by (simp add: dbl_value_def abs_mult abs_divide)

lemma fixed_integer_floor:
  "fixed_integer 2 (dyadic m e) = nat \<lfloor>dbl_value m e * 100 + 1 / 2\<rfloor>"
proof -
  let ?n = "fst (dyadic m e)" and ?d = "snd (dyadic m e)"
  have d: "0 < ?d" by (rule dyadic_pos)
  have "dbl_value m e * 100 + 1 / 2 = of_int (2 * ?n * 10 ^ 2 + ?d) / of_int (2 * ?d)"
    using d by (simp add: dyadic_value[symmetric] field_simps)
  then have "\<lfloor>dbl_value m e * 100 + 1 / 2\<rfloor> = (2 * ?n * 10 ^ 2 + ?d) div (2 * ?d)"
    by (simp only: floor_divide_of_int_eq)
  then show ?thesis by (simp add: fixed_integer_def)
qed

lemma toFixed_two_decimals:
  assumes "\<bar>dbl_value m e\<bar> < 10 ^ 21"
  shows "toFixed number_toString (Dbl m e) 2 =
     (if m < 0 then ''-'' else [])
     @ digits10 (nat \<lfloor>\<bar>dbl_value m e\<bar> * 100 + 1 / 2\<rfloor> div 100) @ ''.''
     @ [digit_char (nat \<lfloor>\<bar>dbl_value m e\<bar> * 100 + 1 / 2\<rfloor> mod 100 div 10),
        digit_char (nat \<lfloor>\<bar>dbl_value m e\<bar> * 100 + 1 / 2\<rfloor> mod 10)]"
proof -
  let ?n = "fst (dyadic \<bar>m\<bar> e)" and ?d = "snd (dyadic \<bar>m\<bar> e)"
  have d: "0 < ?d" by (rule dyadic_pos)
  have "of_int ?n / of_int ?d < (10 ^ 21 :: rat)"
    using assms by (simp only: dyadic_value dbl_value_abs)
  then have "(of_int ?n :: rat) < 10 ^ 21 * of_int ?d"
    using d by (simp add: field_simps)
  then have "(of_int ?n :: rat) < of_int (10 ^ 21 * ?d)" by simp
  then have "?n < 10 ^ 21 * ?d" by (simp only: of_int_less_iff)
  then have small: "\<not> 1000000000000000000000 * ?d \<le> ?n" by simp
  show ?thesis
    using small
    by (simp add: toFixed_def digits10_point fixed_integer_floor dbl_value_abs)
qed

lemma literal_0_5: "nearest_double 5 10 = Dbl 4503599627370496 (- 53)"
  by code_simp

lemma literal_0_12345: "nearest_double 12345 100000 = Dbl 8895509983982204 (- 56)"
  by code_simp

lemma times_100:
  "js_times (Dbl 4503599627370496 (- 53)) (Dbl 100 0) = Dbl 7036874417766400 (- 47)"
  "js_times (Dbl 1 0) (Dbl 100 0) = Dbl 7036874417766400 (- 46)"
  "js_times (Dbl 8895509983982204 (- 56)) (Dbl 100 0) = Dbl 6949617174986097 (- 49)"
  by code_simp+

lemmas digits10_numeral = digits10.simps[of "numeral k" for k] digits10.simps[of "Suc 0"]
  digits10.simps[of 0]

lemma fixed_examples:
  "toFixed number_toString (Dbl 7036874417766400 (- 47)) 2 = ''50.00''"
  "toFixed number_toString (Dbl 7036874417766400 (- 46)) 2 = ''100.00''"
  "toFixed number_toString (Dbl 6949617174986097 (- 49)) 2 = ''12.35''"
  by (simp_all add: toFixed_def dyadic_def fixed_integer_def pad_zeros_def insert_point_def
        digit_char_def digits10_numeral)

text \<open>
  Claim C9. The sync text of the footer is the double product of the progress and 100,
  printed with exactly two decimals and followed by \<^verbatim>\<open>% synced\<close>. For the progress
  values 0.5, 1 and 0.12345 (the doubles of these literals) it is \<^verbatim>\<open>50.00% synced\<close>,
  \<^verbatim>\<open>100.00% synced\<close> and \<^verbatim>\<open>12.35% synced\<close>. In general, when the product is a finite
  number below \<open>10 ^ 21\<close> in magnitude, the text is the sign, the decimal digits of the
  integer part, a point and the two digits of the hundredths of the product rounded to
  the nearest hundredth.
\<close>

theorem Footer_progress_text_two_decimals:
  "Footer_progress_text conv number_toString (Num (nearest_double 5 10)) = ''50.00% synced''
   \<and> Footer_progress_text conv number_toString (Num (Dbl 1 0)) = ''100.00% synced''
   \<and> Footer_progress_text conv number_toString (Num (nearest_double 12345 100000))
       = ''12.35% synced''
   \<and> (js_times (to_number conv progress) (Dbl 100 0) = Dbl m e
        \<and> \<bar>dbl_value m e\<bar> < 10 ^ 21 \<longrightarrow>
      Footer_progress_text conv number_toString progress =
        (if m < 0 then ''-'' else [])
        @ digits10 (nat \<lfloor>\<bar>dbl_value m e\<bar> * 100 + 1 / 2\<rfloor> div 100) @ ''.''
        @ [digit_char (nat \<lfloor>\<bar>dbl_value m e\<bar> * 100 + 1 / 2\<rfloor> mod 100 div 10),
           digit_char (nat \<lfloor>\<bar>dbl_value m e\<bar> * 100 + 1 / 2\<rfloor> mod 10)]
        @ ''% synced'')"
proof (intro conjI impI)
  show "Footer_progress_text conv number_toString (Num (nearest_double 5 10)) = ''50.00% synced''"
    by (simp only: Footer_progress_text_def literal_0_5 to_number.simps times_100
          fixed_examples) simp
  show "Footer_progress_text conv number_toString (Num (Dbl 1 0)) = ''100.00% synced''"
    by (simp only: Footer_progress_text_def to_number.simps times_100 fixed_examples) simp
  show "Footer_progress_text conv number_toString (Num (nearest_double 12345 100000))
       = ''12.35% synced''"
    by (simp only: Footer_progress_text_def literal_0_12345 to_number.simps times_100
          fixed_examples) simp
next
  assume a: "js_times (to_number conv progress) (Dbl 100 0) = Dbl m e
        \<and> \<bar>dbl_value m e\<bar> < 10 ^ 21"
  then have "\<bar>dbl_value m e\<bar> < 10 ^ 21" by simp
  from toFixed_two_decimals[OF this, of number_toString] a
  show "Footer_progress_text conv number_toString progress =
        (if m < 0 then ''-'' else [])
        @ digits10 (nat \<lfloor>\<bar>dbl_value m e\<bar> * 100 + 1 / 2\<rfloor> div 100) @ ''.''
        @ [digit_char (nat \<lfloor>\<bar>dbl_value m e\<bar> * 100 + 1 / 2\<rfloor> mod 100 div 10),
           digit_char (nat \<lfloor>\<bar>dbl_value m e\<bar> * 100 + 1 / 2\<rfloor> mod 10)]
        @ ''% synced''"
    by (simp add: Footer_progress_text_def)
qed

theorem Footer_progress_text_two_decimals_witness:
  "js_times (to_number no_conversion (Num (Dbl 8895509983982204 (- 56)))) (Dbl 100 0)
     = Dbl 6949617174986097 (- 49)
   \<and> \<bar>dbl_value 6949617174986097 (- 49)\<bar> < 10 ^ 21
   \<and> nat \<lfloor>\<bar>dbl_value 6949617174986097 (- 49)\<bar> * 100 + 1 / 2\<rfloor> = 1235
   \<and> Footer_progress_text no_conversion exponent_toString (Num (Dbl 8895509983982204 (- 56)))
     = digits10 12 @ ''.'' @ [digit_char 3, digit_char 5] @ ''% synced''"
proof -
  have h1: "js_times (to_number no_conversion (Num (Dbl 8895509983982204 (- 56)))) (Dbl 100 0)
     = Dbl 6949617174986097 (- 49)"
    by (simp only: to_number.simps times_100)
  have v: "dbl_value 6949617174986097 (- 49) = 6949617174986097 / 562949953421312"
    by (simp add: dbl_value_def)
  have h2: "\<bar>dbl_value 6949617174986097 (- 49)\<bar> < 10 ^ 21"
    unfolding v by simp
  have "\<bar>dbl_value 6949617174986097 (- 49)\<bar> * 100 + 1 / 2
      = of_int 1390486384950640712 / of_int 1125899906842624"
    unfolding v by simp
  then have "\<lfloor>\<bar>dbl_value 6949617174986097 (- 49)\<bar> * 100 + 1 / 2\<rfloor>
      = 1390486384950640712 div 1125899906842624"
    by (simp only: floor_divide_of_int_eq)
  then have n: "nat \<lfloor>\<bar>dbl_value 6949617174986097 (- 49)\<bar> * 100 + 1 / 2\<rfloor> = 1235"
    by simp
  from Footer_progress_text_two_decimals[where conv = no_conversion
      and number_toString = exponent_toString
      and progress = "Num (Dbl 8895509983982204 (- 56))"
      and m = 6949617174986097 and e = "- 49"] h1 h2
  have "Footer_progress_text no_conversion exponent_toString (Num (Dbl 8895509983982204 (- 56)))
     = digits10 (1235 div 100) @ ''.'' @ [digit_char (1235 mod 100 div 10), digit_char (1235 mod 10)]
       @ ''% synced''"
    unfolding n by simp
  then show ?thesis using h1 h2 n by simp
qed

end
